theory Spec2Isabelle
  imports Main "HOL-Library.Word"
begin

section \<open>Shareable links of the messenger: \<^verbatim>\<open>go/pkg/bertymessenger/links.go\<close>\<close>

text \<open>
  The file embeds \<^verbatim>\<open>BertyLink.IsValid\<close>, \<^verbatim>\<open>BertyLink.Marshal\<close> and
  \<^verbatim>\<open>UnmarshalLink\<close>. Go strings are byte sequences and are modelled as
  \<^typ>\<open>string\<close>; a Go byte slice is either \<^verbatim>\<open>nil\<close> or a sequence of bytes, so a
  slice-typed field is an \<^typ>\<open>'a option\<close> whose \<^const>\<open>None\<close> is \<^verbatim>\<open>nil\<close>
  (\<^term>\<open>Some []\<close> is the empty, non-nil slice: the validator compares with \<^verbatim>\<open>nil\<close>).
  A pointer-typed field is an option in the same way.
\<close>

subsection \<open>Data model\<close>

type_synonym byte = "8 word"

type_synonym bytes = "byte list option"

text \<open>
  Modelled from the spec: the message types are generated from the protocol schema
  (\<^verbatim>\<open>bertymessenger.pb.go\<close>, \<^verbatim>\<open>bertytypes.pb.go\<close>), which is not among the
  sources. The fields are the ones \<^verbatim>\<open>links.go\<close> reads and writes; the members of the
  two enumerations are those the spec lists, of which the code names
  \<^verbatim>\<open>BertyLink_UnknownKind\<close>, \<^verbatim>\<open>BertyLink_ContactInviteV1Kind\<close>,
  \<^verbatim>\<open>BertyLink_GroupV1Kind\<close> and \<^verbatim>\<open>GroupTypeMultiMember\<close>.
\<close>

datatype bertytypes_GroupType =
  GroupTypeUndefined | GroupTypeAccount | GroupTypeContact | GroupTypeMultiMember

record bertytypes_Group =
  PublicKey :: bytes
  Secret :: bytes
  SecretSig :: bytes
  GroupType :: bertytypes_GroupType
  SignPub :: bytes

record BertyID =
  PublicRendezvousSeed :: bytes
  AccountPK :: bytes
  DisplayName :: string

record BertyGroup =
  Group :: "bertytypes_Group option"
  DisplayName :: string

datatype BertyLink_Kind =
  BertyLink_UnknownKind | BertyLink_ContactInviteV1Kind | BertyLink_GroupV1Kind

record BertyLink =
  Kind :: BertyLink_Kind
  BertyID :: "BertyID option"
  BertyGroup :: "BertyGroup option"

text \<open>The zero values \<^verbatim>\<open>BertyLink{}\<close>, \<^verbatim>\<open>BertyID{}\<close> and \<^verbatim>\<open>BertyGroup{}\<close>.\<close>

definition zero_BertyLink :: BertyLink where
  "zero_BertyLink = \<lparr>Kind = BertyLink_UnknownKind, BertyID = None, BertyGroup = None\<rparr>"

definition zero_BertyID :: BertyID where
  "zero_BertyID = \<lparr>PublicRendezvousSeed = None, AccountPK = None, BertyID.DisplayName = ''''\<rparr>"

definition zero_BertyGroup :: BertyGroup where
  "zero_BertyGroup = \<lparr>Group = None, BertyGroup.DisplayName = ''''\<rparr>"

subsection \<open>Errors and panics\<close>

text \<open>
  \<^verbatim>\<open>errcode.ErrMissingInput\<close> and \<^verbatim>\<open>errcode.ErrInvalidInput\<close> are the two codes the
  file returns, either plain or wrapping a cause (\<^verbatim>\<open>ErrInvalidInput.Wrap(err)\<close>). The
  cause is a formatted message of \<^verbatim>\<open>links.go\<close>, the error of a library call, or
  \<^verbatim>\<open>nil\<close> (line 151 wraps the \<^verbatim>\<open>nil\<close> error of a successful \<^verbatim>\<open>url.Parse\<close>).
\<close>

datatype ErrCode = ErrMissingInput | ErrInvalidInput

type_synonym lib_error = string

datatype cause =
  NilCause
  | AtLeast2Parts
  | UnsupportedLinkType string
  | UnsupportedLinkFormat
  | CantShareGroupType bertytypes_GroupType
  | LibraryError lib_error

datatype error = Plain ErrCode | Wrap ErrCode cause

fun Code :: "error \<Rightarrow> ErrCode" where
  "Code (Plain c) = c"
| "Code (Wrap c _) = c"

text \<open>
  A method that dereferences a \<^verbatim>\<open>nil\<close> pointer does not return: the Go runtime
  panics. \<^verbatim>\<open>Returns\<close> carries what the function returns otherwise.
\<close>

datatype 'a outcome = Returns 'a | Panics

subsection \<open>The \<^verbatim>\<open>strings\<close> functions the file calls\<close>

text \<open>
  A Go string is a sequence of bytes. \<^verbatim>\<open>strings.ToLower\<close> (defined below, after
  the libraries) reads it as UTF-8, character by character. An ASCII byte is a character
  of its own: a capital becomes its small letter and any other byte is kept.
\<close>

definition lower_byte :: "char \<Rightarrow> char" where
  "lower_byte c =
     (let n = (of_char c :: int) in if 65 \<le> n \<and> n \<le> 90 then char_of (n + 32) else c)"

text \<open>
  The UTF-8 coding of package \<^verbatim>\<open>utf8\<close>, on the values of the bytes.
  \<^verbatim>\<open>DecodeRuneInString\<close> returns the first character of a text and the number of
  bytes it takes; bytes that start no valid character (a stray continuation byte, a
  truncated or overlong form, a surrogate, a value beyond U+10FFFF) give U+FFFD, which
  is 65533, and the width one. \<^verbatim>\<open>AppendRune\<close> writes a character in one to four
  bytes, and U+FFFD for a value that is no character.
\<close>

definition continuation :: "int \<Rightarrow> bool" where
  "continuation b = (128 \<le> b \<and> b \<le> 191)"

fun decode_rune :: "int list \<Rightarrow> int \<times> nat" where
  "decode_rune [] = (65533, 1)"
| "decode_rune (b0 # bs) =
     (if b0 < 128 then (b0, 1)
      else if 194 \<le> b0 \<and> b0 \<le> 223
      then (case bs of
              b1 # _ \<Rightarrow>
                if continuation b1 then ((b0 - 192) * 64 + (b1 - 128), 2) else (65533, 1)
            | _ \<Rightarrow> (65533, 1))
      else if 224 \<le> b0 \<and> b0 \<le> 239
      then (case bs of
              b1 # b2 # _ \<Rightarrow>
                if (if b0 = 224 then 160 else 128) \<le> b1 \<and> b1 \<le> (if b0 = 237 then 159 else 191)
                   \<and> continuation b2
                then ((b0 - 224) * 4096 + (b1 - 128) * 64 + (b2 - 128), 3)
                else (65533, 1)
            | _ \<Rightarrow> (65533, 1))
      else if 240 \<le> b0 \<and> b0 \<le> 244
      then (case bs of
              b1 # b2 # b3 # _ \<Rightarrow>
                if (if b0 = 240 then 144 else 128) \<le> b1 \<and> b1 \<le> (if b0 = 244 then 143 else 191)
                   \<and> continuation b2 \<and> continuation b3
                then ((b0 - 240) * 262144 + (b1 - 128) * 4096 + (b2 - 128) * 64 + (b3 - 128), 4)
                else (65533, 1)
            | _ \<Rightarrow> (65533, 1))
      else (65533, 1))"

definition encode_rune :: "int \<Rightarrow> int list" where
  "encode_rune r =
     (if r < 0 \<or> 1114111 < r \<or> (55296 \<le> r \<and> r \<le> 57343) then [239, 191, 189]
      else if r < 128 then [r]
      else if r < 2048 then [192 + r div 64, 128 + r mod 64]
      else if r < 65536 then [224 + r div 4096, 128 + (r div 64) mod 64, 128 + r mod 64]
      else [240 + r div 262144, 128 + (r div 4096) mod 64, 128 + (r div 64) mod 64,
            128 + r mod 64])"

definition HasPrefix :: "string \<Rightarrow> string \<Rightarrow> bool" where
  "HasPrefix s p = (length p \<le> length s \<and> take (length p) s = p)"

text \<open>
  \<^verbatim>\<open>strings.Split(s, sep)\<close> for a non-empty separator: the text is cut at each
  occurrence of \<open>sep\<close>, found from the left, and the result always has at least one
  element. With the empty separator Go cuts after every character; the file never asks
  for that, and the model cuts after every byte.
\<close>

function Split_at :: "string \<Rightarrow> string \<Rightarrow> string list" where
  "Split_at [] sep = [[]]"
| "Split_at (c # cs) sep =
     (if sep \<noteq> [] \<and> take (length sep) (c # cs) = sep
      then [] # Split_at (drop (length sep) (c # cs)) sep
      else (case Split_at cs sep of [] \<Rightarrow> [[c]] | p # ps \<Rightarrow> (c # p) # ps))"
  by pat_completeness auto
termination
  by (relation "measure (\<lambda>(s, sep). length s)") auto

definition Split :: "string \<Rightarrow> string \<Rightarrow> string list" where
  "Split s sep = (if sep = [] then map (\<lambda>c. [c]) s else Split_at s sep)"

fun Join :: "string list \<Rightarrow> string \<Rightarrow> string" where
  "Join [] sep = []"
| "Join [x] sep = x"
| "Join (x # y # ys) sep = x @ sep @ Join (y # ys) sep"

subsection \<open>\<^verbatim>\<open>url.Values\<close>\<close>

text \<open>
  A \<^verbatim>\<open>url.Values\<close> is a map from a key to the list of its values; the association
  list keeps one entry per key. \<^verbatim>\<open>Add\<close> appends a value to the key's list,
  \<^verbatim>\<open>Get\<close> reads the key's first value or the empty string, \<^verbatim>\<open>len\<close> counts the
  keys. The \<^verbatim>\<open>nil\<close> map and the empty map are both \<^term>\<open>[]\<close>.
\<close>

type_synonym Values = "(string \<times> string list) list"

definition Values_Add :: "Values \<Rightarrow> string \<Rightarrow> string \<Rightarrow> Values" where
  "Values_Add v key val =
     (case map_of v key of
        None \<Rightarrow> v @ [(key, [val])]
      | Some _ \<Rightarrow> map (\<lambda>(k, vs). if k = key then (k, vs @ [val]) else (k, vs)) v)"

definition Values_Get :: "Values \<Rightarrow> string \<Rightarrow> string" where
  "Values_Get v key =
     (case map_of v key of None \<Rightarrow> [] | Some [] \<Rightarrow> [] | Some (x # _) \<Rightarrow> x)"

subsection \<open>The libraries the file calls\<close>

text \<open>
  The serializer (\<^verbatim>\<open>proto.Marshal\<close>, \<^verbatim>\<open>proto.Unmarshal\<close>), the two text codecs
  (\<^verbatim>\<open>base58\<close> and \<^verbatim>\<open>basex\<close>), the URL functions of the standard library and the
  Unicode case tables are not code of this repository. \<^verbatim>\<open>Marshal\<close> and \<^verbatim>\<open>UnmarshalLink\<close> take them as a record
  of functions, and every theorem says which of their properties it relies on.
  \<^verbatim>\<open>basex\<close> functions take the alphabet of the encoding; \<^verbatim>\<open>url.Parse\<close> returns the
  parsed URL, of which the file reads the fragment only.
\<close>

record url_URL =
  Fragment :: string

record lib =
  proto_Marshal :: "BertyLink \<Rightarrow> lib_error + byte list"
  proto_Unmarshal :: "byte list \<Rightarrow> lib_error + BertyLink"
  base58_Encode :: "byte list \<Rightarrow> string"
  base58_Decode :: "string \<Rightarrow> lib_error + byte list"
  basex_Encode :: "string \<Rightarrow> byte list \<Rightarrow> string"
  basex_Decode :: "string \<Rightarrow> string \<Rightarrow> lib_error + byte list"
  url_Parse :: "string \<Rightarrow> lib_error + url_URL"
  url_ParseQuery :: "string \<Rightarrow> lib_error + Values"
  Values_Encode :: "Values \<Rightarrow> string"
  unicode_ToLower :: "int \<Rightarrow> int"

text \<open>
  \<^verbatim>\<open>strings.ToLower\<close> lower-cases a text character by character
  (\<^verbatim>\<open>strings.Map\<close> over \<^verbatim>\<open>unicode.ToLower\<close>). An ASCII byte is lowered as above.
  A byte beyond ASCII starts a character of several bytes, or none: the character is
  decoded, mapped by \<^verbatim>\<open>unicode.ToLower\<close> and written again, and \<^verbatim>\<open>Map\<close> drops
  it when the mapping is negative. What a character beyond ASCII becomes is read from
  the Unicode tables: these are the library's, and are the field
  \<^verbatim>\<open>unicode_ToLower\<close>. Some capitals beyond ASCII become ASCII letters, as U+0130
  becomes \<open>i\<close>; a byte that starts no valid character becomes what U+FFFD is mapped
  to. (On a text of ASCII bytes only, Go takes a shortcut that gives the same result as
  going byte by byte.)
\<close>

function ToLower :: "lib \<Rightarrow> string \<Rightarrow> string" where
  "ToLower L [] = []"
| "ToLower L (c # cs) =
     (if (of_char c :: int) < 128 then lower_byte c # ToLower L cs
      else (case decode_rune (map of_char (c # cs)) of
              (r, width) \<Rightarrow>
                (let lowered = unicode_ToLower L r
                 in (if lowered < 0 then [] else map char_of (encode_rune lowered))
                    @ ToLower L (drop width (c # cs)))))"
  by pat_completeness auto
termination
  by (relation "measure (\<lambda>(L, s). length s)")
     (auto simp: continuation_def split: list.splits if_splits)

declare ToLower.simps [simp del]

subsection \<open>Constants\<close>

definition LinkWebPrefix :: string where
  "LinkWebPrefix = ''https://berty.tech/id#''"

definition LinkInternalPrefix :: string where
  "LinkInternalPrefix = ''BERTY://''"

text \<open>
  The alphabet handed to \<^verbatim>\<open>basex.NewEncoding\<close> for \<^verbatim>\<open>qrBaseEncoder\<close>, and the
  45 characters of the QR alphanumeric mode the comment above it lists: the digits,
  the capitals and the nine symbols space, \<open>$\<close>, \<open>%\<close>, \<open>*\<close>, \<open>+\<close>, \<open>-\<close>, \<open>.\<close>,
  \<open>/\<close>, \<open>:\<close>.
\<close>

definition qrBaseEncoder :: string where
  "qrBaseEncoder = ''ABCDEFGHIJKLMNOPQRSTUVWXYZ0123456789$*-.:/''"

definition qrAlphanumeric :: string where
  "qrAlphanumeric = ''0123456789ABCDEFGHIJKLMNOPQRSTUVWXYZ $%*+-./:''"

subsection \<open>\<^verbatim>\<open>IsValid\<close>\<close>

text \<open>
  The receiver is a pointer, \<^const>\<open>None\<close> when it is \<^verbatim>\<open>nil\<close>. The group branch reads
  \<^verbatim>\<open>link.BertyGroup.Group.GroupType\<close> after checking \<^verbatim>\<open>link.BertyGroup\<close> only: with
  a \<^verbatim>\<open>nil\<close> \<^verbatim>\<open>Group\<close> the read panics. A kind that is neither of the two cases
  leaves the \<^verbatim>\<open>switch\<close> and reaches the final \<^verbatim>\<open>return errcode.ErrInvalidInput\<close>.
\<close>

definition IsValid :: "BertyLink option \<Rightarrow> error option outcome" where
  "IsValid link =
     (case link of
        None \<Rightarrow> Returns (Some (Plain ErrMissingInput))
      | Some l \<Rightarrow>
          (case Kind l of
             BertyLink_ContactInviteV1Kind \<Rightarrow>
               (case BertyID l of
                  None \<Rightarrow> Returns (Some (Plain ErrMissingInput))
                | Some i \<Rightarrow>
                    if AccountPK i = None \<or> PublicRendezvousSeed i = None
                    then Returns (Some (Plain ErrMissingInput))
                    else Returns None)
           | BertyLink_GroupV1Kind \<Rightarrow>
               (case BertyGroup l of
                  None \<Rightarrow> Returns (Some (Plain ErrMissingInput))
                | Some g \<Rightarrow>
                    (case Group g of
                       None \<Rightarrow> Panics
                     | Some grp \<Rightarrow>
                         if GroupType grp \<noteq> GroupTypeMultiMember
                         then Returns (Some (Wrap ErrInvalidInput (CantShareGroupType (GroupType grp))))
                         else Returns None))
           | BertyLink_UnknownKind \<Rightarrow> Returns (Some (Plain ErrInvalidInput))))"

definition IsContact :: "BertyLink \<Rightarrow> bool outcome" where
  "IsContact l =
     (if Kind l = BertyLink_ContactInviteV1Kind
      then (case IsValid (Some l) of Panics \<Rightarrow> Panics | Returns e \<Rightarrow> Returns (e = None))
      else Returns False)"

definition IsGroup :: "BertyLink \<Rightarrow> bool outcome" where
  "IsGroup l =
     (if Kind l = BertyLink_GroupV1Kind
      then (case IsValid (Some l) of Panics \<Rightarrow> Panics | Returns e \<Rightarrow> Returns (e = None))
      else Returns False)"

subsection \<open>\<^verbatim>\<open>Marshal\<close>\<close>

text \<open>
  The two blocks after the \<^verbatim>\<open>switch\<close> (lines 83 to 110): the web URL from the kind
  tag, the machine record and the human values, then the internal URL from the
  record copied for the QR code. The result is \<^verbatim>\<open>(internal, web, err)\<close>.
\<close>

definition Marshal_urls ::
  "lib \<Rightarrow> string \<Rightarrow> BertyLink \<Rightarrow> Values \<Rightarrow> BertyLink \<Rightarrow> string \<times> string \<times> error option" where
  "Marshal_urls L kind machine human qrOptimized =
     (case proto_Marshal L machine of
        Inl e \<Rightarrow> ('''', '''', Some (Wrap ErrInvalidInput (LibraryError e)))
      | Inr machineBin \<Rightarrow>
          (let machineEncoded = base58_Encode L machineBin;
               path = kind @ ''/'' @ machineEncoded;
               path = (if length human > 0 then path @ ''/'' @ Values_Encode L human else path);
               web = LinkWebPrefix @ path
           in case proto_Marshal L qrOptimized of
                Inl e \<Rightarrow> ('''', '''', Some (Wrap ErrInvalidInput (LibraryError e)))
              | Inr qrBin \<Rightarrow>
                  (LinkInternalPrefix @ ''PB/'' @ basex_Encode L qrBaseEncoder qrBin, web, None)))"

text \<open>
  The machine record and the human values of each kind (lines 46 to 76). The reads
  \<^verbatim>\<open>link.BertyID.\<close>\<open>\<dots>\<close> and \<^verbatim>\<open>link.BertyGroup.Group.\<close>\<open>\<dots>\<close> dereference pointers, which
  \<^verbatim>\<open>IsValid\<close> has checked when this point is reached.
\<close>

definition Marshal :: "lib \<Rightarrow> BertyLink option \<Rightarrow> (string \<times> string \<times> error option) outcome" where
  "Marshal L link =
     (case link of
        None \<Rightarrow> Returns ('''', '''', Some (Plain ErrMissingInput))
      | Some l \<Rightarrow>
          if Kind l = BertyLink_UnknownKind
          then Returns ('''', '''', Some (Plain ErrMissingInput))
          else
            (case IsValid (Some l) of
               Panics \<Rightarrow> Panics
             | Returns (Some err) \<Rightarrow> Returns ('''', '''', Some err)
             | Returns None \<Rightarrow>
                 (case Kind l of
                    BertyLink_ContactInviteV1Kind \<Rightarrow>
                      (case BertyID l of
                         None \<Rightarrow> Panics
                       | Some i \<Rightarrow>
                           (let machine = zero_BertyLink
                                  \<lparr>BertyID := Some \<lparr>PublicRendezvousSeed = PublicRendezvousSeed i,
                                                     AccountPK = AccountPK i,
                                                     BertyID.DisplayName = ''''\<rparr>\<rparr>;
                                human = (if BertyID.DisplayName i \<noteq> ''''
                                         then Values_Add [] ''name'' (BertyID.DisplayName i)
                                         else [])
                            in Returns (Marshal_urls L ''contact'' machine human l)))
                  | BertyLink_GroupV1Kind \<Rightarrow>
                      (case BertyGroup l of
                         None \<Rightarrow> Panics
                       | Some g \<Rightarrow>
                           (case Group g of
                              None \<Rightarrow> Panics
                            | Some grp \<Rightarrow>
                                (let machine = zero_BertyLink
                                       \<lparr>BertyGroup := Some \<lparr>Group = Some
                                            \<lparr>PublicKey = PublicKey grp,
                                             Secret = Secret grp,
                                             SecretSig = SecretSig grp,
                                             GroupType = GroupType grp,
                                             SignPub = SignPub grp\<rparr>,
                                          BertyGroup.DisplayName = ''''\<rparr>\<rparr>;
                                     human = (if BertyGroup.DisplayName g \<noteq> ''''
                                              then Values_Add [] ''name'' (BertyGroup.DisplayName g)
                                              else [])
                                 in Returns (Marshal_urls L ''group'' machine human l))))
                  | BertyLink_UnknownKind \<Rightarrow> Returns ('''', '''', Some (Plain ErrInvalidInput)))))"

subsection \<open>\<^verbatim>\<open>UnmarshalLink\<close>\<close>

text \<open>The internal format (lines 120 to 142), entered when the prefix matches.\<close>

definition UnmarshalLink_internal :: "lib \<Rightarrow> string \<Rightarrow> error + BertyLink" where
  "UnmarshalLink_internal L uri =
     (let right = drop (length LinkInternalPrefix) uri;
          parts = Split right ''/''
      in if length parts < 2 then Inl (Wrap ErrInvalidInput AtLeast2Parts)
         else if ToLower L (parts ! 0) = ''pb''
         then (let blob = Join (drop 1 parts) ''/''
               in case basex_Decode L qrBaseEncoder blob of
                    Inl e \<Rightarrow> Inl (Wrap ErrInvalidInput (LibraryError e))
                  | Inr qrBin \<Rightarrow>
                      (case proto_Unmarshal L qrBin of
                         Inl e \<Rightarrow> Inl (Wrap ErrInvalidInput (LibraryError e))
                       | Inr link \<Rightarrow> Inr link))
         else Inl (Wrap ErrInvalidInput (UnsupportedLinkType (parts ! 0))))"

text \<open>
  The merging strategy of each kind (lines 183 to 202): the kind is set from the tag,
  a missing sub-record is created, and the human \<^verbatim>\<open>name\<close> fills the display name
  when that is empty.
\<close>

definition merge_kind :: "string \<Rightarrow> BertyLink \<Rightarrow> Values \<Rightarrow> error + BertyLink" where
  "merge_kind kind link human =
     (if kind = ''contact''
      then (let i = (case BertyID link of None \<Rightarrow> zero_BertyID | Some i \<Rightarrow> i);
                name = Values_Get human ''name'';
                i = (if name \<noteq> '''' \<and> BertyID.DisplayName i = ''''
                     then i\<lparr>BertyID.DisplayName := name\<rparr> else i)
            in Inr (link\<lparr>Kind := BertyLink_ContactInviteV1Kind, BertyID := Some i\<rparr>))
      else if kind = ''group''
      then (let g = (case BertyGroup link of None \<Rightarrow> zero_BertyGroup | Some g \<Rightarrow> g);
                name = Values_Get human ''name'';
                g = (if name \<noteq> '''' \<and> BertyGroup.DisplayName g = ''''
                     then g\<lparr>BertyGroup.DisplayName := name\<rparr> else g)
            in Inr (link\<lparr>Kind := BertyLink_GroupV1Kind, BertyGroup := Some g\<rparr>))
      else Inl (Plain ErrInvalidInput))"

text \<open>The web format (lines 145 to 205), entered when the prefix matches.\<close>

definition UnmarshalLink_web :: "lib \<Rightarrow> string \<Rightarrow> error + BertyLink" where
  "UnmarshalLink_web L uri =
     (case url_Parse L uri of
        Inl e \<Rightarrow> Inl (Wrap ErrInvalidInput (LibraryError e))
      | Inr parsed \<Rightarrow>
          if Fragment parsed = '''' then Inl (Wrap ErrInvalidInput NilCause)
          else
            (let rawFragment = Join (drop 1 (Split uri ''#'')) ''#'';
                 parts = Split rawFragment ''/''
             in if length parts < 2 then Inl (Wrap ErrInvalidInput AtLeast2Parts)
                else
                  (case base58_Decode L (parts ! 1) of
                     Inl e \<Rightarrow> Inl (Wrap ErrInvalidInput (LibraryError e))
                   | Inr machineBin \<Rightarrow>
                       (case proto_Unmarshal L machineBin of
                          Inl e \<Rightarrow> Inl (Wrap ErrInvalidInput (LibraryError e))
                        | Inr link \<Rightarrow>
                            (case (if length parts > 2
                                   then url_ParseQuery L (Join (drop 2 parts) ''/'')
                                   else Inr [])
                             of Inl e \<Rightarrow> Inl (Wrap ErrInvalidInput (LibraryError e))
                              | Inr human \<Rightarrow> merge_kind (parts ! 0) link human)))))"

definition UnmarshalLink :: "lib \<Rightarrow> string \<Rightarrow> error + BertyLink" where
  "UnmarshalLink L uri =
     (if uri = '''' then Inl (Plain ErrMissingInput)
      else if HasPrefix (ToLower L uri) (ToLower L LinkInternalPrefix)
      then UnmarshalLink_internal L uri
      else if HasPrefix (ToLower L uri) (ToLower L LinkWebPrefix)
      then UnmarshalLink_web L uri
      else Inl (Wrap ErrInvalidInput UnsupportedLinkFormat))"

subsection \<open>The constructors of a link\<close>

definition BertyID_GetBertyLink :: "BertyID option \<Rightarrow> BertyLink" where
  "BertyID_GetBertyLink ident =
     \<lparr>Kind = BertyLink_ContactInviteV1Kind, BertyID = ident, BertyGroup = None\<rparr>"

definition BertyGroup_GetBertyLink :: "BertyGroup option \<Rightarrow> BertyLink" where
  "BertyGroup_GetBertyLink grp =
     \<lparr>Kind = BertyLink_GroupV1Kind, BertyID = None, BertyGroup = grp\<rparr>"

section \<open>Reference instances of the libraries\<close>

text \<open>
  One executable instance of each library function, after the behaviour of the library
  the file imports: the protocol-buffers wire format of the four messages, the
  positional codec of \<^verbatim>\<open>basex\<close> (which \<^verbatim>\<open>base58\<close> agrees with on its own
  alphabet, except that it refuses the empty text), and the query escaping and
  fragment parsing of \<^verbatim>\<open>net/url\<close>. The theorems below hold for every library
  record; the instances serve to run \<^verbatim>\<open>Marshal\<close> and \<^verbatim>\<open>UnmarshalLink\<close> on
  concrete links.
\<close>


text \<open>
  The positional codec: the digits of the number are kept least significant first
  and every input byte multiplies them by 256 and adds itself, the carry spilling
  into new digits. Leading zero bytes become leading copies of the alphabet's first
  character, and back.
\<close>

function spill :: "int \<Rightarrow> int \<Rightarrow> int list" where
  "spill base carry =
     (if base < 2 \<or> carry \<le> 0 then [] else (carry mod base) # spill base (carry div base))"
  by pat_completeness auto
termination
  by (relation "measure (\<lambda>(base, carry). nat carry)") (auto simp: int_div_less_self)

declare spill.simps [simp del]

fun mul_add :: "int \<Rightarrow> int \<Rightarrow> int list \<Rightarrow> int \<Rightarrow> int list" where
  "mul_add base m [] carry = spill base carry"
| "mul_add base m (d # ds) carry =
     ((carry + d * m) mod base) # mul_add base m ds ((carry + d * m) div base)"

definition leading :: "'a \<Rightarrow> 'a list \<Rightarrow> nat" where
  "leading z xs = length (takeWhile (\<lambda>x. x = z) (butlast xs))"

fun index_from :: "int \<Rightarrow> 'a list \<Rightarrow> 'a \<Rightarrow> int option" where
  "index_from k [] c = None"
| "index_from k (x # xs) c = (if x = c then Some k else index_from (k + 1) xs c)"

fun digits_of :: "string \<Rightarrow> string \<Rightarrow> int list option" where
  "digits_of alphabet [] = Some []"
| "digits_of alphabet (c # cs) =
     (case index_from 0 alphabet c of
        None \<Rightarrow> None
      | Some d \<Rightarrow> map_option ((#) d) (digits_of alphabet cs))"

definition ref_basex_Encode :: "string \<Rightarrow> byte list \<Rightarrow> string" where
  "ref_basex_Encode alphabet source =
     (if source = [] then []
      else map (\<lambda>d. alphabet ! nat d)
             (replicate (leading 0 source) 0
              @ rev (foldl (\<lambda>digits b. mul_add (int (length alphabet)) 256 digits b)
                       [0] (map uint source))))"

definition ref_basex_Decode :: "string \<Rightarrow> string \<Rightarrow> lib_error + byte list" where
  "ref_basex_Decode alphabet source =
     (if source = [] then Inr []
      else case digits_of alphabet source of
             None \<Rightarrow> Inl ''Non Base Character''
           | Some ds \<Rightarrow>
               Inr (map of_int
                      (replicate (leading 0 ds) 0
                       @ rev (foldl (\<lambda>bs d. mul_add 256 (int (length alphabet)) bs d) [0] ds))))"

definition base58_alphabet :: string where
  "base58_alphabet = ''123456789ABCDEFGHJKLMNPQRSTUVWXYZabcdefghijkmnopqrstuvwxyz''"

definition ref_base58_Encode :: "byte list \<Rightarrow> string" where
  "ref_base58_Encode bin = ref_basex_Encode base58_alphabet bin"

definition ref_base58_Decode :: "string \<Rightarrow> lib_error + byte list" where
  "ref_base58_Decode s =
     (if s = [] then Inl ''zero length string''
      else case ref_basex_Decode base58_alphabet s of
             Inl _ \<Rightarrow> Inl ''invalid base58 digit''
           | Inr b \<Rightarrow> Inr b)"

text \<open>The wire format of the serializer: varints, tagged fields, nested messages.\<close>

function put_varint :: "nat \<Rightarrow> byte list" where
  "put_varint n = (if n < 128 then [of_nat n] else of_nat (n mod 128 + 128) # put_varint (n div 128))"
  by pat_completeness auto
termination
  by (relation "measure id") auto

declare put_varint.simps [simp del]

fun get_varint :: "byte list \<Rightarrow> (nat \<times> byte list) option" where
  "get_varint [] = None"
| "get_varint (b # bs) =
     (if unat b < 128 then Some (unat b, bs)
      else (case get_varint bs of
              None \<Rightarrow> None
            | Some (v, rest) \<Rightarrow> Some (unat b - 128 + 128 * v, rest)))"

definition put_bytes :: "nat \<Rightarrow> byte list \<Rightarrow> byte list" where
  "put_bytes field b = (if b = [] then [] else put_varint (field * 8 + 2) @ put_varint (length b) @ b)"

definition put_message :: "nat \<Rightarrow> byte list option \<Rightarrow> byte list" where
  "put_message field m =
     (case m of None \<Rightarrow> [] | Some b \<Rightarrow> put_varint (field * 8 + 2) @ put_varint (length b) @ b)"

definition put_enum :: "nat \<Rightarrow> nat \<Rightarrow> byte list" where
  "put_enum field n = (if n = 0 then [] else put_varint (field * 8) @ put_varint n)"

definition slice_bytes :: "bytes \<Rightarrow> byte list" where
  "slice_bytes b = (case b of None \<Rightarrow> [] | Some xs \<Rightarrow> xs)"

definition string_bytes :: "string \<Rightarrow> byte list" where
  "string_bytes s = map (\<lambda>c. of_int (of_char c)) s"

definition bytes_string :: "byte list \<Rightarrow> string" where
  "bytes_string b = map (\<lambda>x. char_of (uint x)) b"

fun GroupType_number :: "bertytypes_GroupType \<Rightarrow> nat" where
  "GroupType_number GroupTypeUndefined = 0"
| "GroupType_number GroupTypeAccount = 1"
| "GroupType_number GroupTypeContact = 2"
| "GroupType_number GroupTypeMultiMember = 3"

fun Kind_number :: "BertyLink_Kind \<Rightarrow> nat" where
  "Kind_number BertyLink_UnknownKind = 0"
| "Kind_number BertyLink_ContactInviteV1Kind = 1"
| "Kind_number BertyLink_GroupV1Kind = 2"

definition Group_bytes :: "bertytypes_Group \<Rightarrow> byte list" where
  "Group_bytes g =
     put_bytes 1 (slice_bytes (PublicKey g)) @ put_bytes 2 (slice_bytes (Secret g))
     @ put_bytes 3 (slice_bytes (SecretSig g)) @ put_enum 4 (GroupType_number (GroupType g))
     @ put_bytes 5 (slice_bytes (SignPub g))"

definition BertyID_bytes :: "BertyID \<Rightarrow> byte list" where
  "BertyID_bytes i =
     put_bytes 1 (slice_bytes (PublicRendezvousSeed i)) @ put_bytes 2 (slice_bytes (AccountPK i))
     @ put_bytes 3 (string_bytes (BertyID.DisplayName i))"

definition BertyGroup_bytes :: "BertyGroup \<Rightarrow> byte list" where
  "BertyGroup_bytes g =
     put_message 1 (map_option Group_bytes (Group g))
     @ put_bytes 2 (string_bytes (BertyGroup.DisplayName g))"

definition ref_proto_Marshal :: "BertyLink \<Rightarrow> lib_error + byte list" where
  "ref_proto_Marshal l =
     Inr (put_enum 1 (Kind_number (Kind l))
          @ put_message 2 (map_option BertyID_bytes (BertyID l))
          @ put_message 3 (map_option BertyGroup_bytes (BertyGroup l)))"

datatype wire = Varint nat | LengthDelimited "byte list"

text \<open>
  The fields of a message, in order. Each field takes at least one byte, so the
  length of the input bounds the number of fields.
\<close>

fun get_fields :: "byte list \<Rightarrow> byte list \<Rightarrow> (nat \<times> wire) list option" where
  "get_fields fuel [] = Some []"
| "get_fields [] (b # bs) = None"
| "get_fields (x # fuel) (b # bs) =
     (case get_varint (b # bs) of
        None \<Rightarrow> None
      | Some (key, rest) \<Rightarrow>
          if key mod 8 = 0
          then (case get_varint rest of
                  None \<Rightarrow> None
                | Some (v, rest') \<Rightarrow> map_option ((#) (key div 8, Varint v)) (get_fields fuel rest'))
          else if key mod 8 = 2
          then (case get_varint rest of
                  None \<Rightarrow> None
                | Some (len, rest') \<Rightarrow>
                    if length rest' < len then None
                    else map_option ((#) (key div 8, LengthDelimited (take len rest')))
                           (get_fields fuel (drop len rest')))
          else None)"

definition message_fields :: "byte list \<Rightarrow> (nat \<times> wire) list option" where
  "message_fields b = get_fields b b"

fun number_GroupType :: "nat \<Rightarrow> bertytypes_GroupType option" where
  "number_GroupType n =
     (if n = 0 then Some GroupTypeUndefined else if n = 1 then Some GroupTypeAccount
      else if n = 2 then Some GroupTypeContact else if n = 3 then Some GroupTypeMultiMember
      else None)"

fun number_Kind :: "nat \<Rightarrow> BertyLink_Kind option" where
  "number_Kind n =
     (if n = 0 then Some BertyLink_UnknownKind else if n = 1 then Some BertyLink_ContactInviteV1Kind
      else if n = 2 then Some BertyLink_GroupV1Kind else None)"

text \<open>
  Filling a message from its fields: a later field overwrites a scalar and merges
  into a nested message; a field with an unknown number is skipped; a known field
  with the wrong wire type, or an enumeration value without a name, is an error.
\<close>

fun Group_field :: "bertytypes_Group option \<Rightarrow> nat \<times> wire \<Rightarrow> bertytypes_Group option" where
  "Group_field None f = None"
| "Group_field (Some g) (n, LengthDelimited b) =
     (if n = 1 then Some (g\<lparr>PublicKey := Some b\<rparr>)
      else if n = 2 then Some (g\<lparr>Secret := Some b\<rparr>)
      else if n = 3 then Some (g\<lparr>SecretSig := Some b\<rparr>)
      else if n = 5 then Some (g\<lparr>SignPub := Some b\<rparr>)
      else if n = 4 then None else Some g)"
| "Group_field (Some g) (n, Varint v) =
     (if n = 4 then map_option (\<lambda>t. g\<lparr>GroupType := t\<rparr>) (number_GroupType v)
      else if n = 1 \<or> n = 2 \<or> n = 3 \<or> n = 5 then None else Some g)"

definition zero_Group :: bertytypes_Group where
  "zero_Group = \<lparr>PublicKey = None, Secret = None, SecretSig = None,
                 GroupType = GroupTypeUndefined, SignPub = None\<rparr>"

definition Group_Unmarshal :: "bertytypes_Group \<Rightarrow> byte list \<Rightarrow> bertytypes_Group option" where
  "Group_Unmarshal g b =
     (case message_fields b of None \<Rightarrow> None | Some fs \<Rightarrow> foldl Group_field (Some g) fs)"

fun BertyID_field :: "BertyID option \<Rightarrow> nat \<times> wire \<Rightarrow> BertyID option" where
  "BertyID_field None f = None"
| "BertyID_field (Some i) (n, LengthDelimited b) =
     (if n = 1 then Some (i\<lparr>PublicRendezvousSeed := Some b\<rparr>)
      else if n = 2 then Some (i\<lparr>AccountPK := Some b\<rparr>)
      else if n = 3 then Some (i\<lparr>BertyID.DisplayName := bytes_string b\<rparr>)
      else Some i)"
| "BertyID_field (Some i) (n, Varint v) = (if n = 1 \<or> n = 2 \<or> n = 3 then None else Some i)"

definition BertyID_Unmarshal :: "BertyID \<Rightarrow> byte list \<Rightarrow> BertyID option" where
  "BertyID_Unmarshal i b =
     (case message_fields b of None \<Rightarrow> None | Some fs \<Rightarrow> foldl BertyID_field (Some i) fs)"

fun BertyGroup_field :: "BertyGroup option \<Rightarrow> nat \<times> wire \<Rightarrow> BertyGroup option" where
  "BertyGroup_field None f = None"
| "BertyGroup_field (Some g) (n, LengthDelimited b) =
     (if n = 1
      then map_option (\<lambda>grp. g\<lparr>Group := Some grp\<rparr>)
             (Group_Unmarshal (case Group g of None \<Rightarrow> zero_Group | Some grp \<Rightarrow> grp) b)
      else if n = 2 then Some (g\<lparr>BertyGroup.DisplayName := bytes_string b\<rparr>)
      else Some g)"
| "BertyGroup_field (Some g) (n, Varint v) = (if n = 1 \<or> n = 2 then None else Some g)"

definition BertyGroup_Unmarshal :: "BertyGroup \<Rightarrow> byte list \<Rightarrow> BertyGroup option" where
  "BertyGroup_Unmarshal g b =
     (case message_fields b of None \<Rightarrow> None | Some fs \<Rightarrow> foldl BertyGroup_field (Some g) fs)"

fun BertyLink_field :: "BertyLink option \<Rightarrow> nat \<times> wire \<Rightarrow> BertyLink option" where
  "BertyLink_field None f = None"
| "BertyLink_field (Some l) (n, Varint v) =
     (if n = 1 then map_option (\<lambda>k. l\<lparr>Kind := k\<rparr>) (number_Kind v)
      else if n = 2 \<or> n = 3 then None else Some l)"
| "BertyLink_field (Some l) (n, LengthDelimited b) =
     (if n = 2
      then map_option (\<lambda>i. l\<lparr>BertyID := Some i\<rparr>)
             (BertyID_Unmarshal (case BertyID l of None \<Rightarrow> zero_BertyID | Some i \<Rightarrow> i) b)
      else if n = 3
      then map_option (\<lambda>g. l\<lparr>BertyGroup := Some g\<rparr>)
             (BertyGroup_Unmarshal (case BertyGroup l of None \<Rightarrow> zero_BertyGroup | Some g \<Rightarrow> g) b)
      else if n = 1 then None else Some l)"

definition ref_proto_Unmarshal :: "byte list \<Rightarrow> lib_error + BertyLink" where
  "ref_proto_Unmarshal b =
     (case message_fields b of
        None \<Rightarrow> Inl ''unexpected EOF''
      | Some fs \<Rightarrow>
          (case foldl BertyLink_field (Some zero_BertyLink) fs of
             None \<Rightarrow> Inl ''proto: wrong wireType''
           | Some l \<Rightarrow> Inr l))"

text \<open>Percent-encoding of query strings and the parsing of a URL's fragment.\<close>

definition unreserved :: "char \<Rightarrow> bool" where
  "unreserved c =
     (let n = (of_char c :: int)
      in (48 \<le> n \<and> n \<le> 57) \<or> (65 \<le> n \<and> n \<le> 90) \<or> (97 \<le> n \<and> n \<le> 122)
         \<or> c \<in> set ''-_.~'')"

definition hex_digit :: "int \<Rightarrow> char" where
  "hex_digit n = ''0123456789ABCDEF'' ! nat n"

definition unhex :: "char \<Rightarrow> int option" where
  "unhex c =
     (let n = (of_char c :: int)
      in if 48 \<le> n \<and> n \<le> 57 then Some (n - 48)
         else if 65 \<le> n \<and> n \<le> 70 then Some (n - 55)
         else if 97 \<le> n \<and> n \<le> 102 then Some (n - 87)
         else None)"

definition QueryEscape :: "string \<Rightarrow> string" where
  "QueryEscape s =
     concat (map (\<lambda>c. if c = CHR '' '' then ''+''
                       else if unreserved c then [c]
                       else [CHR ''%'', hex_digit (of_char c div 16), hex_digit (of_char c mod 16)]) s)"

fun unescape :: "bool \<Rightarrow> string \<Rightarrow> string option" where
  "unescape query [] = Some []"
| "unescape query (c # cs) =
     (if c = CHR ''%''
      then (case cs of
              h # l # rest \<Rightarrow>
                (case (unhex h, unhex l) of
                   (Some a, Some b) \<Rightarrow> map_option ((#) (char_of (16 * a + b))) (unescape query rest)
                 | _ \<Rightarrow> None)
            | _ \<Rightarrow> None)
      else map_option ((#) (if query \<and> c = CHR ''+'' then CHR '' '' else c)) (unescape query cs))"

fun pieces :: "string \<Rightarrow> string list" where
  "pieces [] = [[]]"
| "pieces (c # cs) =
     (if c = CHR ''&'' \<or> c = CHR '';'' then [] # pieces cs
      else (case pieces cs of [] \<Rightarrow> [[c]] | p # ps \<Rightarrow> (c # p) # ps))"

fun parse_pieces :: "string list \<Rightarrow> Values \<Rightarrow> bool \<Rightarrow> lib_error + Values" where
  "parse_pieces [] m failed = (if failed then Inl ''invalid URL escape'' else Inr m)"
| "parse_pieces (p # ps) m failed =
     (if p = [] then parse_pieces ps m failed
      else (case (unescape True (takeWhile (\<lambda>c. c \<noteq> CHR ''='') p),
                  unescape True (drop 1 (dropWhile (\<lambda>c. c \<noteq> CHR ''='') p)))
            of (Some key, Some val) \<Rightarrow> parse_pieces ps (Values_Add m key val) failed
             | _ \<Rightarrow> parse_pieces ps m True))"

definition ref_url_ParseQuery :: "string \<Rightarrow> lib_error + Values" where
  "ref_url_ParseQuery query = parse_pieces (pieces query) [] False"

fun string_less :: "string \<Rightarrow> string \<Rightarrow> bool" where
  "string_less xs [] = False"
| "string_less [] (y # ys) = True"
| "string_less (x # xs) (y # ys) =
     ((of_char x :: int) < of_char y \<or> (x = y \<and> string_less xs ys))"

fun insert_key :: "string \<times> string list \<Rightarrow> Values \<Rightarrow> Values" where
  "insert_key e [] = [e]"
| "insert_key e (x # xs) = (if string_less (fst x) (fst e) then x # insert_key e xs else e # x # xs)"

definition ref_Values_Encode :: "Values \<Rightarrow> string" where
  "ref_Values_Encode v =
     Join (concat (map (\<lambda>(k, vs). map (\<lambda>x. QueryEscape k @ ''='' @ QueryEscape x) vs)
                       (foldr insert_key v [])))
          ''&''"

definition ref_url_Parse :: "string \<Rightarrow> lib_error + url_URL" where
  "ref_url_Parse rawURL =
     (let u = takeWhile (\<lambda>c. c \<noteq> CHR ''#'') rawURL;
          frag = drop 1 (dropWhile (\<lambda>c. c \<noteq> CHR ''#'') rawURL)
      in if \<exists>c \<in> set u. (of_char c :: int) < 32 \<or> (of_char c :: int) = 127
         then Inl ''net/url: invalid control character in URL''
         else (case unescape False frag of
                 None \<Rightarrow> Inl ''invalid URL escape''
               | Some f \<Rightarrow> Inr \<lparr>Fragment = f\<rparr>))"

text \<open>
  Of the Unicode tables the instance holds the capitals of Latin-1, Greek and Cyrillic
  and the three capitals whose small letter is elsewhere: U+0130, which becomes \<open>i\<close>,
  the Kelvin sign U+212A, which becomes \<open>k\<close>, and the Angstrom sign U+212B; it keeps
  every other character.
\<close>

definition ref_unicode_ToLower :: "int \<Rightarrow> int" where
  "ref_unicode_ToLower r =
     (if 65 \<le> r \<and> r \<le> 90 then r + 32
      else if 192 \<le> r \<and> r \<le> 222 \<and> r \<noteq> 215 then r + 32
      else if r = 304 then 105
      else if 913 \<le> r \<and> r \<le> 939 \<and> r \<noteq> 930 then r + 32
      else if 1024 \<le> r \<and> r \<le> 1039 then r + 80
      else if 1040 \<le> r \<and> r \<le> 1071 then r + 32
      else if r = 8490 then 107
      else if r = 8491 then 229
      else r)"

definition ref_lib :: lib where
  "ref_lib =
     \<lparr>proto_Marshal = ref_proto_Marshal,
      proto_Unmarshal = ref_proto_Unmarshal,
      base58_Encode = ref_base58_Encode,
      base58_Decode = ref_base58_Decode,
      basex_Encode = ref_basex_Encode,
      basex_Decode = ref_basex_Decode,
      url_Parse = ref_url_Parse,
      url_ParseQuery = ref_url_ParseQuery,
      Values_Encode = ref_Values_Encode,
      unicode_ToLower = ref_unicode_ToLower\<rparr>"

subsection \<open>Example links\<close>

text \<open>
  The contact of the spec's first scenario (account key \<open>01020304\<close>, rendezvous seed
  \<open>AABBCC\<close>, display name Alice) with the two URLs \<^verbatim>\<open>Marshal\<close> gives for it; two
  records as a web blob may carry them (a contact that names itself, a group without a
  name); and two records the validator refuses.
\<close>

definition alice :: BertyLink where
  "alice =
     \<lparr>Kind = BertyLink_ContactInviteV1Kind,
      BertyID = Some \<lparr>PublicRendezvousSeed = Some [0xAA, 0xBB, 0xCC],
                      AccountPK = Some [1, 2, 3, 4],
                      BertyID.DisplayName = ''Alice''\<rparr>,
      BertyGroup = None\<rparr>"

definition alice_internal :: string where
  "alice_internal = ''BERTY://PB/ONAHR$WX6U.6B:$EAGQ4COIU.2C015.L''"

definition alice_web :: string where
  "alice_web = ''https://berty.tech/id#contact/2WAatYBcimc2zdX4wD/name=Alice''"

definition bob_blob :: BertyLink where
  "bob_blob =
     \<lparr>Kind = BertyLink_UnknownKind,
      BertyID = Some \<lparr>PublicRendezvousSeed = Some [0xAA],
                      AccountPK = Some [1],
                      BertyID.DisplayName = ''Bob''\<rparr>,
      BertyGroup = None\<rparr>"

definition bob_web :: string where
  "bob_web = ''https://berty.tech/id#contact/2WAatRf8pyXWEju1Z3/name=Alice''"

definition team_blob :: BertyLink where
  "team_blob =
     \<lparr>Kind = BertyLink_UnknownKind,
      BertyID = None,
      BertyGroup = Some \<lparr>Group = Some \<lparr>PublicKey = Some [1], Secret = Some [2],
                                         SecretSig = Some [3],
                                         GroupType = GroupTypeMultiMember,
                                         SignPub = None\<rparr>,
                         BertyGroup.DisplayName = ''''\<rparr>\<rparr>"

definition team_web :: string where
  "team_web = ''https://berty.tech/id#group/jGmQHXVG7e23RzUsTVDC/name=Team''"

definition contact_group :: BertyLink where
  "contact_group =
     \<lparr>Kind = BertyLink_GroupV1Kind,
      BertyID = None,
      BertyGroup = Some \<lparr>Group = Some \<lparr>PublicKey = Some [1], Secret = Some [2],
                                         SecretSig = Some [3],
                                         GroupType = GroupTypeContact,
                                         SignPub = None\<rparr>,
                         BertyGroup.DisplayName = ''pair''\<rparr>\<rparr>"

definition keyless_contact :: BertyLink where
  "keyless_contact =
     \<lparr>Kind = BertyLink_ContactInviteV1Kind,
      BertyID = Some \<lparr>PublicRendezvousSeed = Some [0xAA, 0xBB, 0xCC],
                      AccountPK = None,
                      BertyID.DisplayName = ''Alice''\<rparr>,
      BertyGroup = None\<rparr>"

text \<open>
  A contact the validator accepts although its account key is empty: the slice is not
  \<^verbatim>\<open>nil\<close>. With it, the two URLs \<^verbatim>\<open>Marshal\<close> gives for it and the record both URLs
  decode to.
\<close>

definition empty_key_contact :: BertyLink where
  "empty_key_contact =
     \<lparr>Kind = BertyLink_ContactInviteV1Kind,
      BertyID = Some \<lparr>PublicRendezvousSeed = Some [0xAA, 0xBB, 0xCC],
                      AccountPK = Some [],
                      BertyID.DisplayName = ''''\<rparr>,
      BertyGroup = None\<rparr>"

definition empty_key_internal :: string where
  "empty_key_internal = ''BERTY://PB/E*8YJK0*SQ.9S''"

definition empty_key_web :: string where
  "empty_key_web = ''https://berty.tech/id#contact/gcAD31ZqD''"

definition nil_key_contact :: BertyLink where
  "nil_key_contact =
     \<lparr>Kind = BertyLink_ContactInviteV1Kind,
      BertyID = Some \<lparr>PublicRendezvousSeed = Some [0xAA, 0xBB, 0xCC],
                      AccountPK = None,
                      BertyID.DisplayName = ''''\<rparr>,
      BertyGroup = None\<rparr>"

section \<open>Properties\<close>

subsection \<open>Splitting and joining\<close>

lemma Split_at_nonempty: "Split_at s sep \<noteq> []"
  by (induction s sep rule: Split_at.induct) (auto split: list.splits)

lemma Join_Cons: "ys \<noteq> [] \<Longrightarrow> Join (x # ys) sep = x @ sep @ Join ys sep"
  by (cases ys) simp_all

lemma Join_Split_at: "sep \<noteq> [] \<Longrightarrow> Join (Split_at s sep) sep = s"
proof (induction s sep rule: Split_at.induct)
  case (1 sep)
  then show ?case by simp
next
  case (2 c cs sep)
  show ?case
  proof (cases "take (length sep) (c # cs) = sep")
    case True
    with 2 have "Join (Split_at (drop (length sep) (c # cs)) sep) sep = drop (length sep) (c # cs)"
      by simp
    with True 2(3) show ?thesis
      by (simp add: Join_Cons Split_at_nonempty del: drop_Suc_Cons take_Suc_Cons)
         (metis append_take_drop_id)
  next
    case False
    obtain p ps where ps: "Split_at cs sep = p # ps"
      using Split_at_nonempty [of cs sep] by (cases "Split_at cs sep") auto
    with 2 False have "Join (p # ps) sep = cs" by simp
    then have "Join ((c # p) # ps) sep = c # cs" by (cases ps) auto
    with False ps show ?thesis by simp
  qed
qed

lemma Join_Split: "sep \<noteq> [] \<Longrightarrow> Join (Split s sep) sep = s"
  by (simp add: Split_def Join_Split_at)

lemma Split_at_char_append: "d \<notin> set a \<Longrightarrow> Split_at (a @ d # b) [d] = a # Split_at b [d]"
  by (induction a) auto

lemma Split_at_char_none: "d \<notin> set a \<Longrightarrow> Split_at a [d] = [a]"
  by (induction a) auto

lemma Split_char_append: "d \<notin> set a \<Longrightarrow> Split (a @ d # b) [d] = a # Split b [d]"
  by (simp add: Split_def Split_at_char_append)

lemma Split_char_none: "d \<notin> set a \<Longrightarrow> Split a [d] = [a]"
  by (simp add: Split_def Split_at_char_none)

lemma Split_nonempty: "Split s [d] \<noteq> []"
  by (simp add: Split_def Split_at_nonempty)

subsection \<open>Prefixes\<close>

lemma ToLower_ascii:
  "\<forall>c \<in> set a. (of_char c :: int) < 128 \<Longrightarrow> ToLower L (a @ b) = map lower_byte a @ ToLower L b"
  by (induction a) (simp_all add: ToLower.simps)

lemma ToLower_ascii_only:
  "\<forall>c \<in> set a. (of_char c :: int) < 128 \<Longrightarrow> ToLower L a = map lower_byte a"
  using ToLower_ascii [of a L "[]"] by (simp add: ToLower.simps)

lemma HasPrefix_append: "HasPrefix (p @ s) p"
  by (simp add: HasPrefix_def)

lemma ToLower_LinkInternalPrefix: "ToLower L LinkInternalPrefix = ''berty://''"
  by (simp add: LinkInternalPrefix_def ToLower.simps lower_byte_def char_of_def)

lemma ToLower_LinkWebPrefix: "ToLower L LinkWebPrefix = ''https://berty.tech/id#''"
  by (simp add: LinkWebPrefix_def ToLower.simps lower_byte_def char_of_def)

lemma ToLower_PB: "ToLower L ''PB'' = ''pb''"
  by (simp add: ToLower.simps lower_byte_def char_of_def)

lemma ToLower_internal_prefix:
  "ToLower L (LinkInternalPrefix @ s) = ''berty://'' @ ToLower L s"
  by (simp add: LinkInternalPrefix_def ToLower.simps lower_byte_def char_of_def)

lemma ToLower_web_prefix:
  "ToLower L (LinkWebPrefix @ s) = ''https://berty.tech/id#'' @ ToLower L s"
  by (simp add: LinkWebPrefix_def ToLower.simps lower_byte_def char_of_def)

lemma internal_prefix_matches:
  "HasPrefix (ToLower L (LinkInternalPrefix @ s)) (ToLower L LinkInternalPrefix)"
  unfolding ToLower_internal_prefix ToLower_LinkInternalPrefix by (rule HasPrefix_append)

lemma web_prefix_matches:
  "HasPrefix (ToLower L (LinkWebPrefix @ s)) (ToLower L LinkWebPrefix)"
  unfolding ToLower_web_prefix ToLower_LinkWebPrefix by (rule HasPrefix_append)

lemma web_not_internal:
  "\<not> HasPrefix (ToLower L (LinkWebPrefix @ s)) (ToLower L LinkInternalPrefix)"
  unfolding ToLower_web_prefix ToLower_LinkInternalPrefix by (simp add: HasPrefix_def)

text \<open>
  The internal branch cuts the prefix off the text itself, \<^verbatim>\<open>uri[len(LinkInternalPrefix):]\<close>,
  after testing the lower-cased text. The cut is in range: every ASCII byte of a
  lower-cased text comes from a character of its own, of one byte at least, so a text
  whose lower case starts with the eight bytes of the prefix has eight bytes at least.
\<close>

lemma decode_rune_width: "0 < snd (decode_rune bs)"
  by (cases bs) (auto simp: continuation_def split: list.splits)

lemma encode_rune_head:
  "encode_rune r = [r] \<and> 0 \<le> r \<and> r < 128
   \<or> (encode_rune r \<noteq> [] \<and> 128 \<le> hd (encode_rune r) \<and> hd (encode_rune r) < 256)"
  unfolding encode_rune_def by auto

lemma lowered_head:
  "(if lowered < 0 then [] else map char_of (encode_rune lowered)) = []
   \<or> (\<exists>c. (if lowered < 0 then [] else map char_of (encode_rune lowered)) = [c])
   \<or> 128 \<le> (of_char (hd (if lowered < 0 then [] else map char_of (encode_rune lowered))) :: int)"
  using encode_rune_head [of lowered] by (auto simp: hd_map)

lemma ToLower_Cons:
  "\<exists>out rest. ToLower L (c # cs) = out @ ToLower L rest \<and> length rest \<le> length cs
     \<and> (out = [] \<or> (\<exists>x. out = [x]) \<or> 128 \<le> (of_char (hd out) :: int))"
proof (cases "(of_char c :: int) < 128")
  case True
  then have "ToLower L (c # cs) = [lower_byte c] @ ToLower L cs"
    by (simp add: ToLower.simps)
  then show ?thesis by blast
next
  case False
  obtain r width where d: "decode_rune (map of_char (c # cs)) = (r, width)"
    by (cases "decode_rune (map of_char (c # cs))")
  have w: "0 < width" using decode_rune_width [of "map of_char (c # cs)"] d by simp
  let ?out = "if unicode_ToLower L r < 0 then [] else map char_of (encode_rune (unicode_ToLower L r))"
  have "ToLower L (c # cs) = ?out @ ToLower L (drop width (c # cs))"
    using False d by (simp add: ToLower.simps Let_def del: decode_rune.simps)
  moreover have "length (drop width (c # cs)) \<le> length cs" using w by simp
  ultimately show ?thesis using lowered_head [of "unicode_ToLower L r"] by blast
qed

lemma ToLower_prefix_length:
  "HasPrefix (ToLower L s) p \<Longrightarrow> \<forall>c \<in> set p. (of_char c :: int) < 128 \<Longrightarrow> length p \<le> length s"
proof (induction "length s" arbitrary: s p rule: less_induct)
  case less
  show ?case
  proof (cases s)
    case Nil
    with less.prems show ?thesis by (simp add: HasPrefix_def ToLower.simps)
  next
    case (Cons c cs)
    obtain out rest where o: "ToLower L (c # cs) = out @ ToLower L rest"
      and r: "length rest \<le> length cs"
      and h: "out = [] \<or> (\<exists>x. out = [x]) \<or> 128 \<le> (of_char (hd out) :: int)"
      using ToLower_Cons [of L c cs] by blast
    have ih: "HasPrefix (ToLower L rest) q \<Longrightarrow> \<forall>c \<in> set q. (of_char c :: int) < 128
              \<Longrightarrow> length q \<le> length rest" for q
      using less.hyps [of rest q] r Cons by simp
    show ?thesis
    proof (cases p)
      case Nil
      then show ?thesis by simp
    next
      case pc: (Cons x q)
      have pre: "take (length p) (out @ ToLower L rest) = p" "length p \<le> length (out @ ToLower L rest)"
        using less.prems(1) o Cons by (simp_all add: HasPrefix_def)
      from h consider "out = []" | y where "out = [y]" | "out \<noteq> []" "128 \<le> (of_char (hd out) :: int)"
        by (cases out) auto
      then show ?thesis
      proof cases
        case 1
        with pre have "HasPrefix (ToLower L rest) p" by (simp add: HasPrefix_def)
        from ih [OF this less.prems(2)] r Cons show ?thesis by simp
      next
        case 2
        with pre pc have "HasPrefix (ToLower L rest) q" by (simp add: HasPrefix_def)
        moreover have "\<forall>c \<in> set q. (of_char c :: int) < 128" using less.prems(2) pc by simp
        ultimately have "length q \<le> length rest" by (rule ih)
        with r Cons pc show ?thesis by simp
      next
        case 3
        then obtain y ys where "out = y # ys" by (cases out) auto
        with pre pc have "x = y" by simp
        with 3 \<open>out = y # ys\<close> less.prems(2) pc show ?thesis by simp
      qed
    qed
  qed
qed

lemma internal_slice_in_range:
  "HasPrefix (ToLower L uri) (ToLower L LinkInternalPrefix)
   \<Longrightarrow> length LinkInternalPrefix \<le> length uri"
  using ToLower_prefix_length [of L uri "ToLower L LinkInternalPrefix"]
  by (simp add: LinkInternalPrefix_def ToLower.simps lower_byte_def char_of_def)

subsection \<open>What a successful \<^verbatim>\<open>Marshal\<close> returns\<close>

lemma Marshal_urls_None:
  assumes "Marshal_urls L kind machine human qr = (internal, web, None)"
  shows "\<exists>mb qb. proto_Marshal L machine = Inr mb \<and> proto_Marshal L qr = Inr qb
           \<and> internal = LinkInternalPrefix @ ''PB/'' @ basex_Encode L qrBaseEncoder qb
           \<and> web = LinkWebPrefix @ kind @ ''/'' @ base58_Encode L mb
                   @ (if human = [] then [] else ''/'' @ Values_Encode L human)"
  using assms unfolding Marshal_urls_def
  by (auto simp: Let_def split: sum.splits if_splits)

lemma IsValid_contact:
  assumes "IsValid (Some R) = Returns None" "Kind R = BertyLink_ContactInviteV1Kind"
  shows "\<exists>i. BertyID R = Some i \<and> AccountPK i \<noteq> None \<and> PublicRendezvousSeed i \<noteq> None"
  using assms unfolding IsValid_def by (auto split: option.splits if_splits)

lemma IsValid_group:
  assumes "IsValid (Some R) = Returns None" "Kind R = BertyLink_GroupV1Kind"
  shows "\<exists>g grp. BertyGroup R = Some g \<and> Group g = Some grp \<and> GroupType grp = GroupTypeMultiMember"
  using assms unfolding IsValid_def by (auto split: option.splits if_splits)

lemma Marshal_None_valid:
  assumes "Marshal L (Some R) = Returns (internal, web, None)"
  shows "IsValid (Some R) = Returns None"
  using assms unfolding Marshal_def
  by (cases "IsValid (Some R)") (auto split: if_splits option.splits)

lemma Marshal_None_urls:
  assumes "Marshal L (Some R) = Returns (internal, web, None)"
  shows "\<exists>kind machine human. Marshal_urls L kind machine human R = (internal, web, None)"
proof -
  have v: "IsValid (Some R) = Returns None" using assms by (rule Marshal_None_valid)
  show ?thesis
  proof (cases "Kind R")
    case BertyLink_UnknownKind
    with assms show ?thesis by (simp add: Marshal_def)
  next
    case BertyLink_ContactInviteV1Kind
    with v obtain i where "BertyID R = Some i" using IsValid_contact by blast
    with assms v BertyLink_ContactInviteV1Kind show ?thesis
      by (simp add: Marshal_def Let_def) blast
  next
    case BertyLink_GroupV1Kind
    with v obtain g grp where "BertyGroup R = Some g" "Group g = Some grp"
      using IsValid_group by blast
    with assms v BertyLink_GroupV1Kind show ?thesis
      by (simp add: Marshal_def Let_def) blast
  qed
qed

lemma Marshal_None_internal:
  assumes "Marshal L (Some R) = Returns (internal, web, None)"
  shows "\<exists>qb. proto_Marshal L R = Inr qb
           \<and> internal = LinkInternalPrefix @ ''PB/'' @ basex_Encode L qrBaseEncoder qb"
proof -
  from assms obtain kind machine human
    where "Marshal_urls L kind machine human R = (internal, web, None)"
    using Marshal_None_urls by blast
  from Marshal_urls_None [OF this] show ?thesis by blast
qed

lemma Values_Add_empty: "Values_Add [] k v = [(k, [v])]"
  by (simp add: Values_Add_def)

lemma Marshal_contact_web:
  assumes valid: "IsValid (Some R) = Returns None"
    and kind: "Kind R = BertyLink_ContactInviteV1Kind"
    and ident: "BertyID R = Some i"
    and marshal: "Marshal L (Some R) = Returns (internal, web, None)"
  shows "\<exists>bin. proto_Marshal L
                 \<lparr>Kind = BertyLink_UnknownKind,
                  BertyID = Some \<lparr>PublicRendezvousSeed = PublicRendezvousSeed i,
                                  AccountPK = AccountPK i, BertyID.DisplayName = []\<rparr>,
                  BertyGroup = None\<rparr> = Inr bin
           \<and> web = LinkWebPrefix @ ''contact/'' @ base58_Encode L bin
                   @ (if BertyID.DisplayName i = [] then []
                      else ''/'' @ Values_Encode L [(''name'', [BertyID.DisplayName i])])"
proof -
  let ?machine = "zero_BertyLink
        \<lparr>BertyID := Some \<lparr>PublicRendezvousSeed = PublicRendezvousSeed i,
                           AccountPK = AccountPK i, BertyID.DisplayName = []\<rparr>\<rparr>"
  let ?human = "if BertyID.DisplayName i \<noteq> [] then Values_Add [] ''name'' (BertyID.DisplayName i) else []"
  have "Marshal_urls L ''contact'' ?machine ?human R = (internal, web, None)"
    using marshal valid kind ident by (simp add: Marshal_def Let_def)
  from Marshal_urls_None [OF this] obtain mb where
    mb: "proto_Marshal L ?machine = Inr mb"
    and web: "web = LinkWebPrefix @ ''contact'' @ ''/'' @ base58_Encode L mb
                   @ (if ?human = [] then [] else ''/'' @ Values_Encode L ?human)"
    by blast
  have m: "?machine = \<lparr>Kind = BertyLink_UnknownKind,
                  BertyID = Some \<lparr>PublicRendezvousSeed = PublicRendezvousSeed i,
                                  AccountPK = AccountPK i, BertyID.DisplayName = []\<rparr>,
                  BertyGroup = None\<rparr>"
    by (simp add: zero_BertyLink_def)
  show ?thesis
    using mb web unfolding m by (auto simp: Values_Add_empty)
qed

subsection \<open>Decoding the two forms\<close>

lemma UnmarshalLink_PB:
  "UnmarshalLink L (LinkInternalPrefix @ ''PB/'' @ blob) =
     (case basex_Decode L qrBaseEncoder blob of
        Inl e \<Rightarrow> Inl (Wrap ErrInvalidInput (LibraryError e))
      | Inr qrBin \<Rightarrow>
          (case proto_Unmarshal L qrBin of
             Inl e \<Rightarrow> Inl (Wrap ErrInvalidInput (LibraryError e))
           | Inr link \<Rightarrow> Inr link))"
proof -
  have ne: "LinkInternalPrefix @ ''PB/'' @ blob \<noteq> []"
    by (simp add: LinkInternalPrefix_def)
  have parts: "Split (''PB/'' @ blob) ''/'' = ''PB'' # Split blob ''/''"
    using Split_char_append [of "CHR ''/''" "''PB''" blob] by simp
  obtain p ps where rest: "Split blob ''/'' = p # ps"
    using Split_nonempty [of blob "CHR ''/''"] by (cases "Split blob ''/''") auto
  have blob: "Join (p # ps) ''/'' = blob"
    using Join_Split [of "''/''" blob] rest by simp
  show ?thesis
    unfolding UnmarshalLink_def UnmarshalLink_internal_def
    using ne internal_prefix_matches [of L "''PB/'' @ blob"]
    by (simp add: parts rest blob ToLower_PB del: Join.simps append_Cons)
qed

lemma rawFragment_of_web:
  "Join (drop 1 (Split (LinkWebPrefix @ path) ''#'')) ''#'' = path"
proof -
  have "Split (''https://berty.tech/id'' @ CHR ''#'' # path) ''#''
          = ''https://berty.tech/id'' # Split path ''#''"
    by (rule Split_char_append) simp
  then have "Split (LinkWebPrefix @ path) ''#'' = ''https://berty.tech/id'' # Split path ''#''"
    by (simp add: LinkWebPrefix_def)
  then show ?thesis by (simp add: Join_Split)
qed

lemma web_parts_without_query:
  assumes "CHR ''/'' \<notin> set kind" and "CHR ''/'' \<notin> set b58"
  shows "Split (kind @ ''/'' @ b58) ''/'' = [kind, b58]"
  using Split_char_append [OF assms(1), of b58] Split_char_none [OF assms(2)] by simp

lemma web_parts_with_query:
  assumes "CHR ''/'' \<notin> set kind" and "CHR ''/'' \<notin> set b58"
  shows "Split (kind @ ''/'' @ b58 @ ''/'' @ q) ''/'' = kind # b58 # Split q ''/''"
  using Split_char_append [OF assms(1), of "b58 @ ''/'' @ q"] Split_char_append [OF assms(2), of q]
  by simp

lemma UnmarshalLink_web_plain:
  assumes kind: "CHR ''/'' \<notin> set kind" and b58: "CHR ''/'' \<notin> set b58"
    and parse: "url_Parse L (LinkWebPrefix @ kind @ ''/'' @ b58) = Inr parsed"
    and frag: "Fragment parsed \<noteq> []"
  shows "UnmarshalLink L (LinkWebPrefix @ kind @ ''/'' @ b58) =
           (case base58_Decode L b58 of
              Inl e \<Rightarrow> Inl (Wrap ErrInvalidInput (LibraryError e))
            | Inr machineBin \<Rightarrow>
                (case proto_Unmarshal L machineBin of
                   Inl e \<Rightarrow> Inl (Wrap ErrInvalidInput (LibraryError e))
                 | Inr link \<Rightarrow> merge_kind kind link []))"
proof -
  let ?uri = "LinkWebPrefix @ kind @ ''/'' @ b58"
  have ne: "?uri \<noteq> []" by (simp add: LinkWebPrefix_def)
  have raw: "Join (drop 1 (Split ?uri ''#'')) ''#'' = kind @ ''/'' @ b58"
    by (rule rawFragment_of_web)
  have parts: "Split (kind @ ''/'' @ b58) ''/'' = [kind, b58]"
    by (rule web_parts_without_query [OF kind b58])
  show ?thesis
    unfolding UnmarshalLink_def UnmarshalLink_web_def raw
    using ne web_prefix_matches [of L "kind @ ''/'' @ b58"]
      web_not_internal [of L "kind @ ''/'' @ b58"] parse frag
    by (simp add: parts Let_def del: append_Cons split: sum.splits)
qed

lemma UnmarshalLink_web_query:
  assumes kind: "CHR ''/'' \<notin> set kind" and b58: "CHR ''/'' \<notin> set b58"
    and parse: "url_Parse L (LinkWebPrefix @ kind @ ''/'' @ b58 @ ''/'' @ q) = Inr parsed"
    and frag: "Fragment parsed \<noteq> []"
  shows "UnmarshalLink L (LinkWebPrefix @ kind @ ''/'' @ b58 @ ''/'' @ q) =
           (case base58_Decode L b58 of
              Inl e \<Rightarrow> Inl (Wrap ErrInvalidInput (LibraryError e))
            | Inr machineBin \<Rightarrow>
                (case proto_Unmarshal L machineBin of
                   Inl e \<Rightarrow> Inl (Wrap ErrInvalidInput (LibraryError e))
                 | Inr link \<Rightarrow>
                     (case url_ParseQuery L q of
                        Inl e \<Rightarrow> Inl (Wrap ErrInvalidInput (LibraryError e))
                      | Inr human \<Rightarrow> merge_kind kind link human)))"
proof -
  let ?uri = "LinkWebPrefix @ kind @ ''/'' @ b58 @ ''/'' @ q"
  have ne: "?uri \<noteq> []" by (simp add: LinkWebPrefix_def)
  have raw: "Join (drop 1 (Split ?uri ''#'')) ''#'' = kind @ ''/'' @ b58 @ ''/'' @ q"
    by (rule rawFragment_of_web)
  obtain p ps where ps: "Split q ''/'' = p # ps"
    using Split_nonempty [of q "CHR ''/''"] by (cases "Split q ''/''") auto
  have parts: "Split (kind @ ''/'' @ b58 @ ''/'' @ q) ''/'' = kind # b58 # p # ps"
    using web_parts_with_query [OF kind b58, of q] ps by simp
  have j: "Join (p # ps) ''/'' = q"
    using Join_Split [of "''/''" q] ps by simp
  show ?thesis
    unfolding UnmarshalLink_def UnmarshalLink_web_def raw
    using ne web_prefix_matches [of L "kind @ ''/'' @ b58 @ ''/'' @ q"]
      web_not_internal [of L "kind @ ''/'' @ b58 @ ''/'' @ q"] parse frag
    by (simp add: parts j Let_def del: append_Cons Join.simps split: sum.splits)
qed


subsection \<open>Running the instances on the example links\<close>

lemmas wire_eval =
  ref_proto_Marshal_def ref_proto_Unmarshal_def put_varint.simps put_bytes_def put_message_def
  put_enum_def slice_bytes_def string_bytes_def bytes_string_def Group_bytes_def BertyID_bytes_def
  BertyGroup_bytes_def message_fields_def zero_Group_def Group_Unmarshal_def BertyID_Unmarshal_def
  BertyGroup_Unmarshal_def zero_BertyLink_def zero_BertyID_def zero_BertyGroup_def char_of_def

lemmas codec_eval =
  ref_basex_Encode_def ref_basex_Decode_def ref_base58_Encode_def ref_base58_Decode_def
  base58_alphabet_def qrBaseEncoder_def leading_def spill.simps

lemmas url_eval =
  ref_url_Parse_def ref_url_ParseQuery_def ref_Values_Encode_def unreserved_def hex_digit_def
  unhex_def QueryEscape_def Values_Add_def char_of_def Let_def

lemma ref_lib_sel:
  "proto_Marshal ref_lib = ref_proto_Marshal"
  "proto_Unmarshal ref_lib = ref_proto_Unmarshal"
  "base58_Encode ref_lib = ref_base58_Encode"
  "base58_Decode ref_lib = ref_base58_Decode"
  "basex_Encode ref_lib = ref_basex_Encode"
  "basex_Decode ref_lib = ref_basex_Decode"
  "url_Parse ref_lib = ref_url_Parse"
  "url_ParseQuery ref_lib = ref_url_ParseQuery"
  "Values_Encode ref_lib = ref_Values_Encode"
  "unicode_ToLower ref_lib = ref_unicode_ToLower"
  by (simp_all add: ref_lib_def)

lemma alice_bytes:
  "ref_proto_Marshal alice =
     Inr [8, 1, 18, 18, 10, 3, 170, 187, 204, 18, 4, 1, 2, 3, 4, 26, 5, 65, 108, 105, 99, 101]"
  by (simp add: alice_def wire_eval)

lemma alice_bytes_back:
  "ref_proto_Unmarshal
     [8, 1, 18, 18, 10, 3, 170, 187, 204, 18, 4, 1, 2, 3, 4, 26, 5, 65, 108, 105, 99, 101]
   = Inr alice"
  by (simp add: alice_def wire_eval)

lemma alice_qr:
  "ref_basex_Encode qrBaseEncoder
     [8, 1, 18, 18, 10, 3, 170, 187, 204, 18, 4, 1, 2, 3, 4, 26, 5, 65, 108, 105, 99, 101]
   = ''ONAHR$WX6U.6B:$EAGQ4COIU.2C015.L''"
  by (simp add: codec_eval)

lemma alice_qr_back:
  "ref_basex_Decode qrBaseEncoder ''ONAHR$WX6U.6B:$EAGQ4COIU.2C015.L''
   = Inr [8, 1, 18, 18, 10, 3, 170, 187, 204, 18, 4, 1, 2, 3, 4, 26, 5, 65, 108, 105, 99, 101]"
  by (simp add: codec_eval)

lemma alice_machine_bytes:
  "ref_proto_Marshal
     \<lparr>Kind = BertyLink_UnknownKind,
      BertyID = Some \<lparr>PublicRendezvousSeed = Some [170, 187, 204], AccountPK = Some [1, 2, 3, 4],
                      BertyID.DisplayName = []\<rparr>,
      BertyGroup = None\<rparr>
   = Inr [18, 11, 10, 3, 170, 187, 204, 18, 4, 1, 2, 3, 4]"
  by (simp add: wire_eval)

lemma alice_machine_back:
  "ref_proto_Unmarshal [18, 11, 10, 3, 170, 187, 204, 18, 4, 1, 2, 3, 4]
   = Inr \<lparr>Kind = BertyLink_UnknownKind,
          BertyID = Some \<lparr>PublicRendezvousSeed = Some [170, 187, 204], AccountPK = Some [1, 2, 3, 4],
                          BertyID.DisplayName = []\<rparr>,
          BertyGroup = None\<rparr>"
  by (simp add: wire_eval)

lemma alice_b58:
  "ref_base58_Encode [18, 11, 10, 3, 170, 187, 204, 18, 4, 1, 2, 3, 4] = ''2WAatYBcimc2zdX4wD''"
  by (simp add: codec_eval)

lemma alice_b58_back:
  "ref_base58_Decode ''2WAatYBcimc2zdX4wD'' = Inr [18, 11, 10, 3, 170, 187, 204, 18, 4, 1, 2, 3, 4]"
  by (simp add: codec_eval)

lemma alice_query: "ref_Values_Encode [(''name'', [''Alice''])] = ''name=Alice''"
  by (simp add: url_eval)

lemma alice_query_back: "ref_url_ParseQuery ''name=Alice'' = Inr [(''name'', [''Alice''])]"
  by (simp add: url_eval)

lemma alice_web_parse:
  "ref_url_Parse alice_web = Inr \<lparr>Fragment = ''contact/2WAatYBcimc2zdX4wD/name=Alice''\<rparr>"
  by (simp add: alice_web_def url_eval)

lemma IsValid_alice: "IsValid (Some alice) = Returns None"
  by (simp add: IsValid_def alice_def)

lemma Marshal_alice: "Marshal ref_lib (Some alice) = Returns (alice_internal, alice_web, None)"
proof -
  have "Marshal ref_lib (Some alice) =
          Returns (Marshal_urls ref_lib ''contact''
            \<lparr>Kind = BertyLink_UnknownKind,
             BertyID = Some \<lparr>PublicRendezvousSeed = Some [170, 187, 204],
                             AccountPK = Some [1, 2, 3, 4], BertyID.DisplayName = []\<rparr>,
             BertyGroup = None\<rparr>
            [(''name'', [''Alice''])] alice)"
    by (simp add: Marshal_def IsValid_def Values_Add_empty zero_BertyLink_def alice_def)
  also have "\<dots> = Returns (alice_internal, alice_web, None)"
    by (simp add: Marshal_urls_def ref_lib_sel alice_machine_bytes alice_bytes alice_b58 alice_qr
          alice_query alice_internal_def alice_web_def LinkWebPrefix_def LinkInternalPrefix_def)
  finally show ?thesis .
qed

lemma bob_b58_back:
  "ref_base58_Decode ''2WAatRf8pyXWEju1Z3'' = Inr [18, 11, 10, 1, 170, 18, 1, 1, 26, 3, 66, 111, 98]"
  by (simp add: codec_eval)

lemma bob_bytes_back:
  "ref_proto_Unmarshal [18, 11, 10, 1, 170, 18, 1, 1, 26, 3, 66, 111, 98] = Inr bob_blob"
  by (simp add: bob_blob_def wire_eval)

lemma bob_web_parse:
  "ref_url_Parse bob_web = Inr \<lparr>Fragment = ''contact/2WAatRf8pyXWEju1Z3/name=Alice''\<rparr>"
  by (simp add: bob_web_def url_eval)

lemma bob_parts:
  "Split (Join (drop 1 (Split bob_web ''#'')) ''#'') ''/''
   = [''contact'', ''2WAatRf8pyXWEju1Z3'', ''name=Alice'']"
  by (simp add: bob_web_def Split_def)

lemma team_b58_back:
  "ref_base58_Decode ''jGmQHXVG7e23RzUsTVDC''
   = Inr [26, 13, 10, 11, 10, 1, 1, 18, 1, 2, 26, 1, 3, 32, 3]"
  by (simp add: codec_eval)

lemma team_bytes_back:
  "ref_proto_Unmarshal [26, 13, 10, 11, 10, 1, 1, 18, 1, 2, 26, 1, 3, 32, 3] = Inr team_blob"
  by (simp add: team_blob_def wire_eval)

lemma team_web_parse:
  "ref_url_Parse team_web = Inr \<lparr>Fragment = ''group/jGmQHXVG7e23RzUsTVDC/name=Team''\<rparr>"
  by (simp add: team_web_def url_eval)

lemma team_parts:
  "Split (Join (drop 1 (Split team_web ''#'')) ''#'') ''/''
   = [''group'', ''jGmQHXVG7e23RzUsTVDC'', ''name=Team'']"
  by (simp add: team_web_def Split_def)

lemma team_query_back: "ref_url_ParseQuery ''name=Team'' = Inr [(''name'', [''Team''])]"
  by (simp add: url_eval)

lemma web_prefix_of:
  "\<not> HasPrefix (ToLower L bob_web) (ToLower L LinkInternalPrefix)"
  "HasPrefix (ToLower L bob_web) (ToLower L LinkWebPrefix)"
  "\<not> HasPrefix (ToLower L team_web) (ToLower L LinkInternalPrefix)"
  "HasPrefix (ToLower L team_web) (ToLower L LinkWebPrefix)"
  by (simp_all add: bob_web_def team_web_def LinkInternalPrefix_def LinkWebPrefix_def
        HasPrefix_def ToLower.simps lower_byte_def char_of_def)

lemma empty_key_bytes:
  "ref_proto_Marshal empty_key_contact = Inr [8, 1, 18, 5, 10, 3, 170, 187, 204]"
  by (simp add: empty_key_contact_def wire_eval)

lemma empty_key_bytes_back:
  "ref_proto_Unmarshal [8, 1, 18, 5, 10, 3, 170, 187, 204] = Inr nil_key_contact"
  by (simp add: nil_key_contact_def wire_eval)

lemma empty_key_qr:
  "ref_basex_Encode qrBaseEncoder [8, 1, 18, 5, 10, 3, 170, 187, 204] = ''E*8YJK0*SQ.9S''"
  by (simp add: codec_eval)

lemma empty_key_qr_back:
  "ref_basex_Decode qrBaseEncoder ''E*8YJK0*SQ.9S'' = Inr [8, 1, 18, 5, 10, 3, 170, 187, 204]"
  by (simp add: codec_eval)

lemma empty_key_machine_bytes:
  "ref_proto_Marshal
     \<lparr>Kind = BertyLink_UnknownKind,
      BertyID = Some \<lparr>PublicRendezvousSeed = Some [170, 187, 204], AccountPK = Some [],
                      BertyID.DisplayName = []\<rparr>,
      BertyGroup = None\<rparr>
   = Inr [18, 5, 10, 3, 170, 187, 204]"
  by (simp add: wire_eval)

lemma empty_key_machine_back:
  "ref_proto_Unmarshal [18, 5, 10, 3, 170, 187, 204]
   = Inr \<lparr>Kind = BertyLink_UnknownKind,
          BertyID = Some \<lparr>PublicRendezvousSeed = Some [170, 187, 204], AccountPK = None,
                          BertyID.DisplayName = []\<rparr>,
          BertyGroup = None\<rparr>"
  by (simp add: wire_eval)

lemma empty_key_b58: "ref_base58_Encode [18, 5, 10, 3, 170, 187, 204] = ''gcAD31ZqD''"
  by (simp add: codec_eval)

lemma empty_key_b58_back: "ref_base58_Decode ''gcAD31ZqD'' = Inr [18, 5, 10, 3, 170, 187, 204]"
  by (simp add: codec_eval)

lemma empty_key_web_parse:
  "ref_url_Parse empty_key_web = Inr \<lparr>Fragment = ''contact/gcAD31ZqD''\<rparr>"
  by (simp add: empty_key_web_def url_eval)

lemma IsValid_empty_key: "IsValid (Some empty_key_contact) = Returns None"
  by (simp add: IsValid_def empty_key_contact_def)

lemma IsValid_nil_key: "IsValid (Some nil_key_contact) = Returns (Some (Plain ErrMissingInput))"
  by (simp add: IsValid_def nil_key_contact_def)

lemma Marshal_empty_key:
  "Marshal ref_lib (Some empty_key_contact) = Returns (empty_key_internal, empty_key_web, None)"
proof -
  have "Marshal ref_lib (Some empty_key_contact) =
          Returns (Marshal_urls ref_lib ''contact''
            \<lparr>Kind = BertyLink_UnknownKind,
             BertyID = Some \<lparr>PublicRendezvousSeed = Some [170, 187, 204],
                             AccountPK = Some [], BertyID.DisplayName = []\<rparr>,
             BertyGroup = None\<rparr>
            [] empty_key_contact)"
    by (simp add: Marshal_def IsValid_def zero_BertyLink_def empty_key_contact_def)
  also have "\<dots> = Returns (empty_key_internal, empty_key_web, None)"
    by (simp add: Marshal_urls_def ref_lib_sel empty_key_machine_bytes empty_key_bytes
          empty_key_b58 empty_key_qr empty_key_internal_def empty_key_web_def
          LinkWebPrefix_def LinkInternalPrefix_def)
  finally show ?thesis .
qed

lemma UnmarshalLink_empty_key_internal:
  "UnmarshalLink ref_lib empty_key_internal = Inr nil_key_contact"
proof -
  have i: "empty_key_internal = LinkInternalPrefix @ ''PB/'' @ ''E*8YJK0*SQ.9S''"
    by (simp add: empty_key_internal_def LinkInternalPrefix_def)
  show ?thesis
    unfolding i UnmarshalLink_PB
    by (simp add: ref_lib_sel empty_key_qr_back empty_key_bytes_back)
qed

lemma UnmarshalLink_empty_key_web:
  "UnmarshalLink ref_lib empty_key_web = Inr nil_key_contact"
proof -
  have w: "empty_key_web = LinkWebPrefix @ ''contact'' @ ''/'' @ ''gcAD31ZqD''"
    by (simp add: empty_key_web_def LinkWebPrefix_def)
  have p: "url_Parse ref_lib (LinkWebPrefix @ ''contact'' @ ''/'' @ ''gcAD31ZqD'')
             = Inr \<lparr>Fragment = ''contact/gcAD31ZqD''\<rparr>"
    using empty_key_web_parse unfolding w by (simp add: ref_lib_sel)
  have "UnmarshalLink ref_lib empty_key_web =
          merge_kind ''contact''
            \<lparr>Kind = BertyLink_UnknownKind,
             BertyID = Some \<lparr>PublicRendezvousSeed = Some [170, 187, 204], AccountPK = None,
                             BertyID.DisplayName = []\<rparr>,
             BertyGroup = None\<rparr> []"
    unfolding w
    using UnmarshalLink_web_plain [of "''contact''" "''gcAD31ZqD''" ref_lib
        "\<lparr>Fragment = ''contact/gcAD31ZqD''\<rparr>", OF _ _ p]
    by (simp add: ref_lib_sel empty_key_b58_back empty_key_machine_back)
  also have "\<dots> = Inr nil_key_contact"
    by (simp add: merge_kind_def Values_Get_def nil_key_contact_def)
  finally show ?thesis .
qed

text \<open>
  The capital I with a dot, U+0130, is the two bytes C4 B0 and lower-cases to \<open>i\<close>: a
  text that has it in the place of the \<open>i\<close> of the web prefix passes the prefix test.
\<close>

lemma dotted_capital_I_web_prefix:
  "ToLower ref_lib (''https://berty.tech/'' @ [CHR 0xC4, CHR 0xB0] @ ''d#contact/x'')
     = ''https://berty.tech/id#contact/x''
   \<and> HasPrefix (ToLower ref_lib (''https://berty.tech/'' @ [CHR 0xC4, CHR 0xB0] @ ''d#contact/x''))
        (ToLower ref_lib LinkWebPrefix)"
  by (simp add: ToLower.simps ref_lib_sel encode_rune_def
        ref_unicode_ToLower_def continuation_def lower_byte_def char_of_def LinkWebPrefix_def
        HasPrefix_def)

section \<open>The properties of the specification\<close>

text \<open>
  C1, as the code has it. For every record the validator accepts and the serializer
  reads back exactly, decoding the internal URL that \<^verbatim>\<open>Marshal\<close> produced returns
  that same record, with every field: the internal form is the prefix, the tag
  \<^verbatim>\<open>PB\<close> and the base-encoded serialization of the whole record, and
  \<^verbatim>\<open>UnmarshalLink\<close> strips the prefix, accepts the tag and joins the rest again, also
  when the encoded text holds slashes. The condition on the serializer (and on the
  codec, that it decodes what it encoded) is needed: the validator accepts records that
  do not come back, as the counterexample below shows.
\<close>

theorem internal_roundtrip:
  assumes valid: "IsValid (Some R) = Returns None"
    and marshal: "Marshal L (Some R) = Returns (internal, web, None)"
    and codec: "\<And>bin. proto_Marshal L R = Inr bin \<Longrightarrow>
                  basex_Decode L qrBaseEncoder (basex_Encode L qrBaseEncoder bin) = Inr bin
                  \<and> proto_Unmarshal L bin = Inr R"
  shows "UnmarshalLink L internal = Inr R"
proof -
  from marshal obtain qb where qb: "proto_Marshal L R = Inr qb"
    and internal: "internal = LinkInternalPrefix @ ''PB/'' @ basex_Encode L qrBaseEncoder qb"
    using Marshal_None_internal by blast
  from codec [OF qb] show ?thesis
    unfolding internal UnmarshalLink_PB by simp
qed

theorem internal_roundtrip_witness:
  "IsValid (Some alice) = Returns None
   \<and> Marshal ref_lib (Some alice) = Returns (alice_internal, alice_web, None)
   \<and> UnmarshalLink ref_lib alice_internal = Inr alice"
proof -
  have codec: "basex_Decode ref_lib qrBaseEncoder (basex_Encode ref_lib qrBaseEncoder bin) = Inr bin
               \<and> proto_Unmarshal ref_lib bin = Inr alice"
    if "proto_Marshal ref_lib alice = Inr bin" for bin
    using that by (auto simp: ref_lib_sel alice_bytes alice_qr alice_qr_back alice_bytes_back)
  from internal_roundtrip [OF IsValid_alice Marshal_alice codec] IsValid_alice Marshal_alice
  show ?thesis by simp
qed

text \<open>
  C1 as the specification states it, for every record the validator accepts, fails.
  The validator tests the key and the seed of a contact against \<^verbatim>\<open>nil\<close> only, so it
  accepts an account key that is empty and not \<^verbatim>\<open>nil\<close>; the wire format writes an
  empty bytes field as absent, and it is read back \<^verbatim>\<open>nil\<close>. The internal URL of such
  a contact decodes to a different record, one that the validator rejects.
\<close>

theorem internal_roundtrip_loses_empty_key:
  "IsValid (Some empty_key_contact) = Returns None
   \<and> Marshal ref_lib (Some empty_key_contact) = Returns (empty_key_internal, empty_key_web, None)
   \<and> UnmarshalLink ref_lib empty_key_internal = Inr nil_key_contact
   \<and> UnmarshalLink ref_lib empty_key_internal \<noteq> Inr empty_key_contact
   \<and> IsValid (Some nil_key_contact) = Returns (Some (Plain ErrMissingInput))"
  using IsValid_empty_key Marshal_empty_key UnmarshalLink_empty_key_internal IsValid_nil_key
  by (simp add: nil_key_contact_def empty_key_contact_def)

text \<open>
  C2, as the code has it. For every valid contact invitation whose blob record (the
  seed and the key, without the name) the serializer reads back exactly, decoding the
  web URL that \<^verbatim>\<open>Marshal\<close> produced returns a contact record with the same account
  key, rendezvous seed and display name. The blob carries the record without its name,
  and the name comes back from the query parameter \<^verbatim>\<open>name\<close>. Relied on from the
  other libraries, at this record: base58 decodes what it encoded and its text holds no
  slash, \<^verbatim>\<open>url.Parse\<close> accepts the URL and finds a fragment, and the query string
  written for the name parses back to that name.
\<close>

theorem web_roundtrip_contact:
  assumes valid: "IsValid (Some R) = Returns None"
    and kind: "Kind R = BertyLink_ContactInviteV1Kind"
    and ident: "BertyID R = Some i"
    and marshal: "Marshal L (Some R) = Returns (internal, web, None)"
    and blob: "\<And>bin. proto_Marshal L
                 \<lparr>Kind = BertyLink_UnknownKind,
                  BertyID = Some (i\<lparr>BertyID.DisplayName := []\<rparr>),
                  BertyGroup = None\<rparr> = Inr bin \<Longrightarrow>
               proto_Unmarshal L bin =
                 Inr \<lparr>Kind = BertyLink_UnknownKind,
                      BertyID = Some (i\<lparr>BertyID.DisplayName := []\<rparr>),
                      BertyGroup = None\<rparr>
               \<and> base58_Decode L (base58_Encode L bin) = Inr bin
               \<and> CHR ''/'' \<notin> set (base58_Encode L bin)"
    and parse: "url_Parse L web = Inr parsed" and frag: "Fragment parsed \<noteq> []"
    and query: "BertyID.DisplayName i \<noteq> [] \<Longrightarrow>
                 \<exists>human. url_ParseQuery L (Values_Encode L [(''name'', [BertyID.DisplayName i])]) = Inr human
                      \<and> Values_Get human ''name'' = BertyID.DisplayName i"
  shows "UnmarshalLink L web =
           Inr \<lparr>Kind = BertyLink_ContactInviteV1Kind, BertyID = Some i, BertyGroup = None\<rparr>"
proof -
  let ?machine = "\<lparr>Kind = BertyLink_UnknownKind,
                  BertyID = Some (i\<lparr>BertyID.DisplayName := []\<rparr>),
                  BertyGroup = None\<rparr>"
  let ?q = "Values_Encode L [(''name'', [BertyID.DisplayName i])]"
  have m: "\<lparr>Kind = BertyLink_UnknownKind,
            BertyID = Some \<lparr>PublicRendezvousSeed = PublicRendezvousSeed i,
                            AccountPK = AccountPK i, BertyID.DisplayName = []\<rparr>,
            BertyGroup = None\<rparr> = ?machine"
    by simp
  from Marshal_contact_web [OF valid kind ident marshal] obtain bin
    where bin: "proto_Marshal L ?machine = Inr bin"
      and web: "web = LinkWebPrefix @ ''contact/'' @ base58_Encode L bin
                   @ (if BertyID.DisplayName i = [] then []
                      else ''/'' @ ?q)"
    unfolding m by auto
  note b = blob [OF bin]
  have k: "CHR ''/'' \<notin> set ''contact''" by simp
  show ?thesis
  proof (cases "BertyID.DisplayName i = []")
    case True
    then have w: "web = LinkWebPrefix @ ''contact'' @ ''/'' @ base58_Encode L bin"
      using web by simp
    have "UnmarshalLink L web = merge_kind ''contact'' ?machine []"
      using UnmarshalLink_web_plain [of "''contact''" "base58_Encode L bin" L parsed]
        k b parse frag unfolding w by simp
    also have "\<dots> = Inr \<lparr>Kind = BertyLink_ContactInviteV1Kind, BertyID = Some i, BertyGroup = None\<rparr>"
      using True by (simp add: merge_kind_def Values_Get_def)
    finally show ?thesis .
  next
    case False
    from query [OF False] obtain human
      where h: "url_ParseQuery L ?q = Inr human"
        and n: "Values_Get human ''name'' = BertyID.DisplayName i"
      by blast
    from False have w: "web = LinkWebPrefix @ ''contact'' @ ''/'' @ base58_Encode L bin @ ''/'' @ ?q"
      using web by simp
    have "UnmarshalLink L web = merge_kind ''contact'' ?machine human"
      using UnmarshalLink_web_query [of "''contact''" "base58_Encode L bin" L ?q parsed]
        k b parse frag h unfolding w by simp
    also have "\<dots> = Inr \<lparr>Kind = BertyLink_ContactInviteV1Kind, BertyID = Some i, BertyGroup = None\<rparr>"
      using False n by (simp add: merge_kind_def)
    finally show ?thesis .
  qed
qed

theorem web_roundtrip_contact_witness:
  "IsValid (Some alice) = Returns None
   \<and> Marshal ref_lib (Some alice) = Returns (alice_internal, alice_web, None)
   \<and> url_Parse ref_lib alice_web = Inr \<lparr>Fragment = ''contact/2WAatYBcimc2zdX4wD/name=Alice''\<rparr>
   \<and> UnmarshalLink ref_lib alice_web = Inr alice"
proof -
  let ?i = "\<lparr>PublicRendezvousSeed = Some [0xAA, 0xBB, 0xCC], AccountPK = Some [1, 2, 3, 4],
            BertyID.DisplayName = ''Alice''\<rparr>"
  have kind: "Kind alice = BertyLink_ContactInviteV1Kind" and ident: "BertyID alice = Some ?i"
    by (simp_all add: alice_def)
  have blob: "proto_Unmarshal ref_lib bin =
                 Inr \<lparr>Kind = BertyLink_UnknownKind,
                      BertyID = Some (?i\<lparr>BertyID.DisplayName := []\<rparr>),
                      BertyGroup = None\<rparr>
               \<and> base58_Decode ref_lib (base58_Encode ref_lib bin) = Inr bin
               \<and> CHR ''/'' \<notin> set (base58_Encode ref_lib bin)"
    if "proto_Marshal ref_lib
          \<lparr>Kind = BertyLink_UnknownKind,
           BertyID = Some (?i\<lparr>BertyID.DisplayName := []\<rparr>),
           BertyGroup = None\<rparr> = Inr bin" for bin
    using that
    by (auto simp: ref_lib_sel alice_machine_bytes alice_machine_back alice_b58 alice_b58_back)
  have parse: "url_Parse ref_lib alice_web
                 = Inr \<lparr>Fragment = ''contact/2WAatYBcimc2zdX4wD/name=Alice''\<rparr>"
    by (simp add: ref_lib_sel alice_web_parse)
  have frag: "Fragment \<lparr>Fragment = ''contact/2WAatYBcimc2zdX4wD/name=Alice''\<rparr> \<noteq> []"
    by simp
  have query: "\<exists>human. url_ParseQuery ref_lib
                   (Values_Encode ref_lib [(''name'', [BertyID.DisplayName ?i])]) = Inr human
                 \<and> Values_Get human ''name'' = BertyID.DisplayName ?i"
    by (simp add: ref_lib_sel alice_query alice_query_back Values_Get_def)
  have "UnmarshalLink ref_lib alice_web =
          Inr \<lparr>Kind = BertyLink_ContactInviteV1Kind, BertyID = Some ?i, BertyGroup = None\<rparr>"
    by (rule web_roundtrip_contact [OF IsValid_alice kind ident Marshal_alice blob parse frag query])
  then have "UnmarshalLink ref_lib alice_web = Inr alice"
    by (simp add: alice_def)
  with IsValid_alice Marshal_alice parse show ?thesis by simp
qed

text \<open>
  C2 as the specification states it, for every valid contact invitation, fails on the
  same contact: its account key is empty and not \<^verbatim>\<open>nil\<close>, the validator accepts it,
  and the web URL decodes to a record whose account key is \<^verbatim>\<open>nil\<close>.
\<close>

theorem web_roundtrip_loses_empty_key:
  "IsValid (Some empty_key_contact) = Returns None
   \<and> Kind empty_key_contact = BertyLink_ContactInviteV1Kind
   \<and> Marshal ref_lib (Some empty_key_contact) = Returns (empty_key_internal, empty_key_web, None)
   \<and> UnmarshalLink ref_lib empty_key_web = Inr nil_key_contact
   \<and> map_option AccountPK (BertyID empty_key_contact) = Some (Some [])
   \<and> map_option AccountPK (BertyID nil_key_contact) = Some None"
  using IsValid_empty_key Marshal_empty_key UnmarshalLink_empty_key_web
  by (simp add: nil_key_contact_def empty_key_contact_def)

text \<open>
  C3, as the code has it. The alphabet of the internal form's encoder is the 45
  characters of the QR alphanumeric mode without space, \<open>%\<close> and \<open>+\<close>: 42 characters,
  each once, so the codec works in base 42. (The specification counts 43.)
\<close>

theorem qr_alphabet_42:
  "set qrBaseEncoder = set qrAlphanumeric - {CHR '' '', CHR ''%'', CHR ''+''}
   \<and> distinct qrAlphanumeric \<and> length qrAlphanumeric = 45
   \<and> distinct qrBaseEncoder \<and> length qrBaseEncoder = 42"
  unfolding qrBaseEncoder_def qrAlphanumeric_def by auto

text \<open>C3 as the specification states it fails: the alphabet does not have 43 characters.\<close>

theorem qr_alphabet_not_43:
  "\<not> (set qrBaseEncoder = set qrAlphanumeric - {CHR '' '', CHR ''%'', CHR ''+''}
      \<and> length qrBaseEncoder = 43)"
  unfolding qrBaseEncoder_def by simp

text \<open>
  C4 fails on the code. On a group link whose \<^verbatim>\<open>BertyGroup\<close> is present and whose
  \<^verbatim>\<open>Group\<close> is \<^verbatim>\<open>nil\<close>, \<^verbatim>\<open>IsValid\<close> reads \<^verbatim>\<open>link.BertyGroup.Group.GroupType\<close>
  and panics, and so does \<^verbatim>\<open>Marshal\<close>, which calls it; no error is returned.
\<close>

theorem IsValid_nil_Group_panics:
  "IsValid (Some \<lparr>Kind = BertyLink_GroupV1Kind, BertyID = b,
                  BertyGroup = Some \<lparr>Group = None, BertyGroup.DisplayName = n\<rparr>\<rparr>) = Panics
   \<and> Marshal L (Some \<lparr>Kind = BertyLink_GroupV1Kind, BertyID = b,
                  BertyGroup = Some \<lparr>Group = None, BertyGroup.DisplayName = n\<rparr>\<rparr>) = Panics"
  by (simp add: IsValid_def Marshal_def)

text \<open>
  C5, as the code has it. The validator rejects with \<^verbatim>\<open>ErrMissingInput\<close> a contact
  invitation whose account key is absent (\<^verbatim>\<open>nil\<close>) and a \<^verbatim>\<open>nil\<close> record; a record
  of kind Unknown it rejects with \<^verbatim>\<open>ErrInvalidInput\<close>, and it is \<^verbatim>\<open>Marshal\<close> that
  answers \<^verbatim>\<open>ErrMissingInput\<close> for that kind, before the validator runs.
\<close>

theorem IsValid_rejects:
  "(Kind l = BertyLink_ContactInviteV1Kind \<and> BertyID l = Some i \<and> AccountPK i = None
      \<longrightarrow> IsValid (Some l) = Returns (Some (Plain ErrMissingInput))
          \<and> Marshal L (Some l) = Returns ([], [], Some (Plain ErrMissingInput)))
   \<and> IsValid None = Returns (Some (Plain ErrMissingInput))
   \<and> Marshal L None = Returns ([], [], Some (Plain ErrMissingInput))
   \<and> (Kind u = BertyLink_UnknownKind
      \<longrightarrow> IsValid (Some u) = Returns (Some (Plain ErrInvalidInput))
          \<and> Marshal L (Some u) = Returns ([], [], Some (Plain ErrMissingInput)))"
  by (simp add: IsValid_def Marshal_def)

theorem IsValid_rejects_witness:
  "Kind keyless_contact = BertyLink_ContactInviteV1Kind
   \<and> IsValid (Some keyless_contact) = Returns (Some (Plain ErrMissingInput))
   \<and> Marshal ref_lib (Some keyless_contact) = Returns ([], [], Some (Plain ErrMissingInput))
   \<and> Kind zero_BertyLink = BertyLink_UnknownKind
   \<and> IsValid (Some zero_BertyLink) = Returns (Some (Plain ErrInvalidInput))
   \<and> Marshal ref_lib (Some zero_BertyLink) = Returns ([], [], Some (Plain ErrMissingInput))"
  using IsValid_rejects [of keyless_contact
      "\<lparr>PublicRendezvousSeed = Some [0xAA, 0xBB, 0xCC], AccountPK = None,
        BertyID.DisplayName = ''Alice''\<rparr>" ref_lib zero_BertyLink]
  by (simp add: keyless_contact_def zero_BertyLink_def)

text \<open>
  C5 as the specification states it fails twice: for the kind Unknown the validator's error is not
  \<^verbatim>\<open>ErrMissingInput\<close>, and a contact invitation whose account key is the empty,
  non-\<^verbatim>\<open>nil\<close> slice is accepted.
\<close>

theorem IsValid_not_as_claimed:
  "IsValid (Some \<lparr>Kind = BertyLink_UnknownKind, BertyID = None, BertyGroup = None\<rparr>)
     \<noteq> Returns (Some (Plain ErrMissingInput))
   \<and> IsValid (Some \<lparr>Kind = BertyLink_ContactInviteV1Kind,
                    BertyID = Some \<lparr>PublicRendezvousSeed = Some [1], AccountPK = Some [],
                                    BertyID.DisplayName = []\<rparr>,
                    BertyGroup = None\<rparr>) = Returns None"
  by (simp add: IsValid_def)

text \<open>
  C6. For every group link whose group type is not the multi-member one,
  \<^verbatim>\<open>Marshal\<close> returns the validator's error, of code \<^verbatim>\<open>ErrInvalidInput\<close>, with the
  empty string for both URLs.
\<close>

theorem Marshal_other_group_type:
  assumes "Kind l = BertyLink_GroupV1Kind" and "BertyGroup l = Some g" and "Group g = Some grp"
    and "GroupType grp \<noteq> GroupTypeMultiMember"
  shows "Marshal L (Some l)
           = Returns ([], [], Some (Wrap ErrInvalidInput (CantShareGroupType (GroupType grp))))
         \<and> IsValid (Some l)
           = Returns (Some (Wrap ErrInvalidInput (CantShareGroupType (GroupType grp))))
         \<and> Code (Wrap ErrInvalidInput (CantShareGroupType (GroupType grp))) = ErrInvalidInput"
  using assms by (simp add: IsValid_def Marshal_def)

theorem Marshal_other_group_type_witness:
  "Kind contact_group = BertyLink_GroupV1Kind
   \<and> GroupTypeContact \<noteq> GroupTypeMultiMember
   \<and> Marshal ref_lib (Some contact_group)
       = Returns ([], [], Some (Wrap ErrInvalidInput (CantShareGroupType GroupTypeContact)))
   \<and> IsValid (Some contact_group)
       = Returns (Some (Wrap ErrInvalidInput (CantShareGroupType GroupTypeContact)))"
  using Marshal_other_group_type [of contact_group
      "\<lparr>Group = Some \<lparr>PublicKey = Some [1], Secret = Some [2], SecretSig = Some [3],
                       GroupType = GroupTypeContact, SignPub = None\<rparr>,
        BertyGroup.DisplayName = ''pair''\<rparr>"
      "\<lparr>PublicKey = Some [1], Secret = Some [2], SecretSig = Some [3],
        GroupType = GroupTypeContact, SignPub = None\<rparr>" ref_lib]
  by (simp add: contact_group_def)

text \<open>
  C7. In web-form decoding, whatever record the blob deserializes to and whatever the
  query string parses to: the sub-record of the kind named by the tag gets the human
  \<^verbatim>\<open>name\<close> as its display name exactly when that parameter is not empty and the
  blob's display name is empty; otherwise the blob's display name stays, and nothing
  else of the record changes but the kind.
\<close>

theorem web_name_merge:
  assumes "uri \<noteq> []"
    and "\<not> HasPrefix (ToLower L uri) (ToLower L LinkInternalPrefix)"
    and "HasPrefix (ToLower L uri) (ToLower L LinkWebPrefix)"
    and "url_Parse L uri = Inr parsed" and "Fragment parsed \<noteq> []"
    and "parts = Split (Join (drop 1 (Split uri ''#'')) ''#'') ''/''" and "2 \<le> length parts"
    and "base58_Decode L (parts ! 1) = Inr machineBin"
    and "proto_Unmarshal L machineBin = Inr blob"
    and "(if 2 < length parts then url_ParseQuery L (Join (drop 2 parts) ''/'') else Inr []) = Inr human"
    and "name = Values_Get human ''name''"
  shows "(parts ! 0 = ''contact'' \<longrightarrow>
           (let i = (case BertyID blob of None \<Rightarrow> zero_BertyID | Some i \<Rightarrow> i)
            in UnmarshalLink L uri =
                 Inr (blob\<lparr>Kind := BertyLink_ContactInviteV1Kind,
                           BertyID := Some (i\<lparr>BertyID.DisplayName :=
                              (if name \<noteq> [] \<and> BertyID.DisplayName i = [] then name
                               else BertyID.DisplayName i)\<rparr>)\<rparr>)))
       \<and> (parts ! 0 = ''group'' \<longrightarrow>
           (let g = (case BertyGroup blob of None \<Rightarrow> zero_BertyGroup | Some g \<Rightarrow> g)
            in UnmarshalLink L uri =
                 Inr (blob\<lparr>Kind := BertyLink_GroupV1Kind,
                           BertyGroup := Some (g\<lparr>BertyGroup.DisplayName :=
                              (if name \<noteq> [] \<and> BertyGroup.DisplayName g = [] then name
                               else BertyGroup.DisplayName g)\<rparr>)\<rparr>)))"
proof -
  have web: "UnmarshalLink L uri = merge_kind (parts ! 0) blob human"
    using assms unfolding UnmarshalLink_def UnmarshalLink_web_def
    by (auto simp: Let_def split: if_splits)
  show ?thesis
    unfolding web merge_kind_def using assms(11) by (simp add: Let_def)
qed

theorem web_name_merge_witness:
  "Values_Get [(''name'', [''Alice''])] ''name'' = ''Alice''
   \<and> map_option BertyID.DisplayName (BertyID bob_blob) = Some ''Bob''
   \<and> UnmarshalLink ref_lib bob_web = Inr (bob_blob\<lparr>Kind := BertyLink_ContactInviteV1Kind\<rparr>)
   \<and> Values_Get [(''name'', [''Team''])] ''name'' = ''Team''
   \<and> map_option BertyGroup.DisplayName (BertyGroup team_blob) = Some []
   \<and> UnmarshalLink ref_lib team_web =
       Inr (team_blob\<lparr>Kind := BertyLink_GroupV1Kind,
              BertyGroup := Some \<lparr>Group = Some \<lparr>PublicKey = Some [1], Secret = Some [2],
                                                  SecretSig = Some [3],
                                                  GroupType = GroupTypeMultiMember,
                                                  SignPub = None\<rparr>,
                                   BertyGroup.DisplayName = ''Team''\<rparr>\<rparr>)"
proof -
  let ?bp = "[''contact'', ''2WAatRf8pyXWEju1Z3'', ''name=Alice'']"
  let ?tp = "[''group'', ''jGmQHXVG7e23RzUsTVDC'', ''name=Team'']"
  have ne: "bob_web \<noteq> []" "team_web \<noteq> []"
    by (simp_all add: bob_web_def team_web_def)
  have bparse: "url_Parse ref_lib bob_web
                  = Inr \<lparr>Fragment = ''contact/2WAatRf8pyXWEju1Z3/name=Alice''\<rparr>"
    and tparse: "url_Parse ref_lib team_web
                  = Inr \<lparr>Fragment = ''group/jGmQHXVG7e23RzUsTVDC/name=Team''\<rparr>"
    by (simp_all add: ref_lib_sel bob_web_parse team_web_parse)
  have f: "Fragment \<lparr>Fragment = ''contact/2WAatRf8pyXWEju1Z3/name=Alice''\<rparr> \<noteq> []"
    "Fragment \<lparr>Fragment = ''group/jGmQHXVG7e23RzUsTVDC/name=Team''\<rparr> \<noteq> []"
    by simp_all
  have bparts: "?bp = Split (Join (drop 1 (Split bob_web ''#'')) ''#'') ''/''"
    and tparts: "?tp = Split (Join (drop 1 (Split team_web ''#'')) ''#'') ''/''"
    by (simp_all only: bob_parts team_parts)
  have len: "2 \<le> length ?bp" "2 \<le> length ?tp"
    by simp_all
  have bdec: "base58_Decode ref_lib (?bp ! 1) = Inr [18, 11, 10, 1, 170, 18, 1, 1, 26, 3, 66, 111, 98]"
    and tdec: "base58_Decode ref_lib (?tp ! 1)
                 = Inr [26, 13, 10, 11, 10, 1, 1, 18, 1, 2, 26, 1, 3, 32, 3]"
    by (simp_all add: ref_lib_sel bob_b58_back team_b58_back)
  have bun: "proto_Unmarshal ref_lib [18, 11, 10, 1, 170, 18, 1, 1, 26, 3, 66, 111, 98] = Inr bob_blob"
    and tun: "proto_Unmarshal ref_lib [26, 13, 10, 11, 10, 1, 1, 18, 1, 2, 26, 1, 3, 32, 3]
                = Inr team_blob"
    by (simp_all add: ref_lib_sel bob_bytes_back team_bytes_back)
  have bq: "(if 2 < length ?bp then url_ParseQuery ref_lib (Join (drop 2 ?bp) ''/'') else Inr [])
              = Inr [(''name'', [''Alice''])]"
    and tq: "(if 2 < length ?tp then url_ParseQuery ref_lib (Join (drop 2 ?tp) ''/'') else Inr [])
              = Inr [(''name'', [''Team''])]"
    by (simp_all add: ref_lib_sel alice_query_back team_query_back)
  have bn: "''Alice'' = Values_Get [(''name'', [''Alice''])] ''name''"
    and tn: "''Team'' = Values_Get [(''name'', [''Team''])] ''name''"
    by (simp_all add: Values_Get_def)
  have bob: "UnmarshalLink ref_lib bob_web = Inr (bob_blob\<lparr>Kind := BertyLink_ContactInviteV1Kind\<rparr>)"
    using web_name_merge [OF ne(1) web_prefix_of(1) web_prefix_of(2) bparse f(1) bparts len(1)
        bdec bun bq bn]
    by (simp add: bob_blob_def)
  have team: "UnmarshalLink ref_lib team_web =
      Inr (team_blob\<lparr>Kind := BertyLink_GroupV1Kind,
             BertyGroup := Some \<lparr>Group = Some \<lparr>PublicKey = Some [1], Secret = Some [2],
                                                 SecretSig = Some [3],
                                                 GroupType = GroupTypeMultiMember,
                                                 SignPub = None\<rparr>,
                                  BertyGroup.DisplayName = ''Team''\<rparr>\<rparr>)"
    using web_name_merge [OF ne(2) web_prefix_of(3) web_prefix_of(4) tparse f(2) tparts len(2)
        tdec tun tq tn]
    by (simp add: team_blob_def)
  show ?thesis
    unfolding bob team by (simp add: Values_Get_def bob_blob_def team_blob_def)
qed

text \<open>
  C8. For every valid contact invitation the blob of the web URL is the base58 text of
  the serialization of a record that holds nothing but the rendezvous seed and the
  account key of the input: its kind is unset, its group is absent and its display name
  is empty, whatever the display name of the input, which goes to the query string.
\<close>

theorem web_blob_contact:
  assumes "IsValid (Some R) = Returns None"
    and "Kind R = BertyLink_ContactInviteV1Kind"
    and "BertyID R = Some i"
    and "Marshal L (Some R) = Returns (internal, web, None)"
  shows "\<exists>bin. proto_Marshal L
                 \<lparr>Kind = BertyLink_UnknownKind,
                  BertyID = Some \<lparr>PublicRendezvousSeed = PublicRendezvousSeed i,
                                  AccountPK = AccountPK i, BertyID.DisplayName = []\<rparr>,
                  BertyGroup = None\<rparr> = Inr bin
           \<and> web = LinkWebPrefix @ ''contact/'' @ base58_Encode L bin
                   @ (if BertyID.DisplayName i = [] then []
                      else ''/'' @ Values_Encode L [(''name'', [BertyID.DisplayName i])])"
  using assms by (rule Marshal_contact_web)

theorem web_blob_contact_witness:
  "IsValid (Some alice) = Returns None
   \<and> Marshal ref_lib (Some alice) = Returns (alice_internal, alice_web, None)
   \<and> (\<exists>bin. proto_Marshal ref_lib
                 \<lparr>Kind = BertyLink_UnknownKind,
                  BertyID = Some \<lparr>PublicRendezvousSeed = Some [0xAA, 0xBB, 0xCC],
                                  AccountPK = Some [1, 2, 3, 4], BertyID.DisplayName = []\<rparr>,
                  BertyGroup = None\<rparr> = Inr bin
           \<and> alice_web = LinkWebPrefix @ ''contact/'' @ base58_Encode ref_lib bin
                   @ ''/'' @ Values_Encode ref_lib [(''name'', [''Alice''])])"
  using web_blob_contact [of alice
      "\<lparr>PublicRendezvousSeed = Some [0xAA, 0xBB, 0xCC], AccountPK = Some [1, 2, 3, 4],
        BertyID.DisplayName = ''Alice''\<rparr>" ref_lib alice_internal alice_web]
    IsValid_alice Marshal_alice
  by (simp add: alice_def)



text \<open>
  C10. The internal form is decoded without any validity check: whenever the text
  after \<^verbatim>\<open>BERTY://PB/\<close> base-decodes and the bytes deserialize, \<^verbatim>\<open>UnmarshalLink\<close>
  returns the deserialized record as it is, also when the validator rejects it. With
  the reference libraries the empty blob is such an input: it gives the zero record,
  of kind Unknown.
\<close>

theorem internal_decoding_unvalidated:
  assumes "basex_Decode L qrBaseEncoder blob = Inr bin"
    and "proto_Unmarshal L bin = Inr link"
    and "IsValid (Some link) \<noteq> Returns None"
  shows "UnmarshalLink L (''BERTY://PB/'' @ blob) = Inr link"
  using assms UnmarshalLink_PB [of L blob] by (simp add: LinkInternalPrefix_def)

theorem internal_decoding_unvalidated_witness:
  "basex_Decode ref_lib qrBaseEncoder [] = Inr []
   \<and> proto_Unmarshal ref_lib [] = Inr zero_BertyLink
   \<and> IsValid (Some zero_BertyLink) = Returns (Some (Plain ErrInvalidInput))
   \<and> UnmarshalLink ref_lib ''BERTY://PB/'' = Inr zero_BertyLink"
proof -
  have d: "basex_Decode ref_lib qrBaseEncoder [] = Inr []"
    by (simp add: ref_lib_sel ref_basex_Decode_def)
  have u: "proto_Unmarshal ref_lib [] = Inr zero_BertyLink"
    by (simp add: ref_lib_sel ref_proto_Unmarshal_def message_fields_def)
  have v: "IsValid (Some zero_BertyLink) = Returns (Some (Plain ErrInvalidInput))"
    by (simp add: IsValid_def zero_BertyLink_def)
  have "IsValid (Some zero_BertyLink) \<noteq> Returns None"
    unfolding v by simp
  from internal_decoding_unvalidated [OF d u this] d u v show ?thesis by simp
qed

end
